theory Spec2Isabelle
  imports Complex_Main "HOL-Library.Char_ord" "HOL-Library.List_Lexorder" "HOL-Library.Multiset"
begin

section \<open>Run registry (billing/models\_calculation.py)\<close>

text \<open>
  \<^verbatim>\<open>CalculationRun.STATUS_CHOICES\<close>: the four lifecycle states of a run.
\<close>

datatype status = Processing | Completed | Failed | Updated

text \<open>
  The fields of \<^verbatim>\<open>CalculationRun\<close> that the data-access layer reads. Timestamps are
  integers (seconds); text fields are strings.
\<close>

record calculation_run =
  run_id :: string
  created_at :: int
  updated_at :: int
  period_string :: string
  status :: status
  total_projects :: nat
  total_employees :: nat
  total_budget :: real
  total_adjusted_cost :: real
  total_variance :: real
  data_directory :: string
  is_archived :: bool

text \<open>
  Exceptions of the Python code, as values. The payload is the message \<^verbatim>\<open>str(e)\<close> gives.
\<close>

datatype py_error =
    KeyError string
  | IndexError string
  | TypeError string
  | ValueError string
  | FileNotFoundError string
  | OSError string

fun str_error :: "py_error \<Rightarrow> string" where
  "str_error (KeyError k) = [CHR 0x27] @ k @ [CHR 0x27]"
| "str_error (IndexError m) = m"
| "str_error (TypeError m) = m"
| "str_error (ValueError m) = m"
| "str_error (FileNotFoundError m) = m"
| "str_error (OSError m) = m"

subsection \<open>Snapshot tables\<close>

text \<open>
  A pandas DataFrame: the list of column names and the rows. A row gives, for a column
  name, its text reading (\<open>str\<close>, for the label columns \<^verbatim>\<open>Libelle projet\<close>, \<^verbatim>\<open>Nom\<close>,
  \<^verbatim>\<open>ID\<close>, \<^verbatim>\<open>Grade\<close>) and its float reading (\<open>num\<close>, for the numeric columns), where
  \<open>None\<close> is NaN. Floats are modelled as reals. What a row holds at a column that is
  not in \<open>columns\<close> is never read.
\<close>

record row =
  str :: "string \<Rightarrow> string"
  num :: "string \<Rightarrow> real option"

record frame =
  columns :: "string list"
  rows :: "row list"

text \<open>
  A file of the media directory is a parquet file holding a frame, or something
  \<^verbatim>\<open>pd.read_parquet\<close> cannot parse.
\<close>

datatype media_file = Parquet frame | Corrupt

record filesystem =
  dirs :: "string set"
  files :: "string \<rightharpoonup> media_file"

definition path_join :: "string \<Rightarrow> string \<Rightarrow> string" where
  "path_join d n = d @ ''/'' @ n"

text \<open>\<^verbatim>\<open>Path.exists\<close>: the path names a directory or a file.\<close>

definition path_exists :: "filesystem \<Rightarrow> string \<Rightarrow> bool" where
  "path_exists fs p = (p \<in> dirs fs \<or> files fs p \<noteq> None)"

text \<open>
  \<^verbatim>\<open>CalculationRun.data_path\<close>: \<^verbatim>\<open>Path(settings.MEDIA_ROOT) / self.data_directory\<close>. The
  setting is the parameter \<open>media_root\<close>.
\<close>

definition data_path :: "string \<Rightarrow> calculation_run \<Rightarrow> string" where
  "data_path media_root run = path_join media_root (data_directory run)"

definition is_data_available :: "string \<Rightarrow> filesystem \<Rightarrow> calculation_run \<Rightarrow> bool" where
  "is_data_available media_root fs run =
     (let data_dir = data_path media_root run in
      path_exists fs data_dir \<and>
      path_exists fs (path_join data_dir ''result_initial.parquet'') \<and>
      path_exists fs (path_join data_dir ''employee_summary_initial.parquet''))"

definition has_updates :: "string \<Rightarrow> filesystem \<Rightarrow> calculation_run \<Rightarrow> bool" where
  "has_updates media_root fs run =
     path_exists fs (path_join (data_path media_root run) ''result_updated.parquet'')"

definition get_latest_parquet ::
  "string \<Rightarrow> filesystem \<Rightarrow> calculation_run \<Rightarrow> string \<Rightarrow> string option" where
  "get_latest_parquet media_root fs run base_name =
     (let data_dir = data_path media_root run;
          updated_file = path_join data_dir (base_name @ ''_updated.parquet'');
          initial_file = path_join data_dir (base_name @ ''_initial.parquet'')
      in if path_exists fs updated_file then Some updated_file
         else if path_exists fs initial_file then Some initial_file
         else None)"


section \<open>Database tables\<close>

text \<open>
  The table of \<^verbatim>\<open>CalculationRun\<close> rows, in storage order, and the table of
  \<^verbatim>\<open>UserDashboardPreference\<close> rows. The latter is unique on \<^verbatim>\<open>user_identifier\<close>, so it is
  a map from the user identifier to the record's \<^verbatim>\<open>preferred_run\<close>, a nullable foreign
  key held here as the run id (\<^verbatim>\<open>run_id\<close> is unique).
\<close>

record database =
  calculation_runs :: "calculation_run list"
  user_preferences :: "string \<rightharpoonup> string option"

text \<open>
  \<^verbatim>\<open>CalculationRun.objects.get(run_id=...)\<close>; \<^verbatim>\<open>DoesNotExist\<close> is \<open>None\<close>.
\<close>

definition objects_get :: "database \<Rightarrow> string \<Rightarrow> calculation_run option" where
  "objects_get db rid = find (\<lambda>r. run_id r = rid) (calculation_runs db)"

text \<open>Following the foreign key \<^verbatim>\<open>prefs.preferred_run\<close>.\<close>

definition deref_run :: "database \<Rightarrow> string option \<Rightarrow> calculation_run option" where
  "deref_run db fk = (case fk of None \<Rightarrow> None | Some rid \<Rightarrow> objects_get db rid)"

text \<open>
  \<^verbatim>\<open>order_by('-created_at')\<close>, also the model's \<^verbatim>\<open>Meta.ordering\<close>: newest first; rows
  with equal creation time stay in storage order.
\<close>

definition order_by_created_desc :: "calculation_run list \<Rightarrow> calculation_run list" where
  "order_by_created_desc rs = sort_key (\<lambda>r. - created_at r) rs"

text \<open>\<^verbatim>\<open>QuerySet.first()\<close>.\<close>

definition first :: "'a list \<Rightarrow> 'a option" where
  "first xs = (case xs of [] \<Rightarrow> None | x # _ \<Rightarrow> Some x)"

section \<open>Run selection of billing/services/data\_access.py\<close>

record request =
  http_x_forwarded_for :: "string option"
  remote_addr :: "string option"

definition get_user_identifier :: "request \<Rightarrow> string" where
  "get_user_identifier req =
     (let ip = (case http_x_forwarded_for req of
                  Some x \<Rightarrow> if x \<noteq> [] then Some (takeWhile (\<lambda>c. c \<noteq> CHR '','') x)
                            else remote_addr req
                | None \<Rightarrow> remote_addr req)
      in case ip of Some s \<Rightarrow> if s \<noteq> [] then s else ''unknown'' | None \<Rightarrow> ''unknown'')"

definition get_available_runs :: "database \<Rightarrow> calculation_run list" where
  "get_available_runs db =
     order_by_created_desc
       (filter (\<lambda>r. status r \<in> {Completed, Updated} \<and> is_archived r = False)
          (calculation_runs db))"

definition get_latest_run :: "database \<Rightarrow> calculation_run option" where
  "get_latest_run db =
     first (order_by_created_desc
       (filter (\<lambda>r. status r \<in> {Completed, Updated} \<and> is_archived r = False)
          (calculation_runs db)))"

definition get_preferred_run ::
  "string \<Rightarrow> filesystem \<Rightarrow> database \<Rightarrow> request \<Rightarrow> calculation_run option" where
  "get_preferred_run media_root fs db req =
     (let user_id = get_user_identifier req in
      case user_preferences db user_id of
        Some prefs \<Rightarrow>
          (case deref_run db prefs of
             Some preferred \<Rightarrow>
               if is_data_available media_root fs preferred then Some preferred
               else get_latest_run db
           | None \<Rightarrow> get_latest_run db)
      | None \<Rightarrow> get_latest_run db)"

text \<open>
  \<^verbatim>\<open>set_preferred_run\<close> returns its boolean and the database after it. \<^verbatim>\<open>get_or_create\<close>
  followed by the assignment when the record was already there leaves, either way, the
  user's one record pointing at the run.
\<close>

definition set_preferred_run :: "database \<Rightarrow> request \<Rightarrow> string \<Rightarrow> bool \<times> database" where
  "set_preferred_run db req rid =
     (let user_id = get_user_identifier req in
      case objects_get db rid of
        Some run \<Rightarrow>
          (True, db\<lparr>user_preferences := (user_preferences db)(user_id \<mapsto> Some (run_id run))\<rparr>)
      | None \<Rightarrow> (False, db))"

text \<open>
  The run that \<^verbatim>\<open>get_dashboard_context\<close> selects. \<^verbatim>\<open>if run_id:\<close> is false for \<^verbatim>\<open>None\<close> and
  for the empty string.
\<close>

definition get_dashboard_context_run ::
  "string \<Rightarrow> filesystem \<Rightarrow> database \<Rightarrow> request \<Rightarrow> string option \<Rightarrow> calculation_run option" where
  "get_dashboard_context_run media_root fs db req rid_opt =
     (case rid_opt of
        Some rid \<Rightarrow>
          if rid \<noteq> [] then objects_get db rid
          else get_preferred_run media_root fs db req
      | None \<Rightarrow> get_preferred_run media_root fs db req)"

section \<open>Run selection of billing/services/data\_access\_service.py\<close>

text \<open>The service object: \<^verbatim>\<open>DataAccessService(user_ip, user_identifier)\<close>.\<close>

record service =
  user_ip :: string
  user_identifier :: string

definition cache_prefix :: "service \<Rightarrow> string" where
  "cache_prefix svc = ''calc_data_'' @ user_ip svc @ ''_'' @ user_identifier svc"

definition get_available_runs_svc :: "database \<Rightarrow> bool \<Rightarrow> calculation_run list" where
  "get_available_runs_svc db include_running =
     (let queryset = calculation_runs db;
          queryset = (if \<not> include_running then filter (\<lambda>r. status r = Completed) queryset
                      else queryset)
      in order_by_created_desc queryset)"

definition get_latest_completed_run :: "database \<Rightarrow> calculation_run option" where
  "get_latest_completed_run db =
     first (order_by_created_desc (filter (\<lambda>r. status r = Completed) (calculation_runs db)))"

definition get_user_preferred_run :: "database \<Rightarrow> service \<Rightarrow> calculation_run option" where
  "get_user_preferred_run db svc =
     (case user_preferences db (user_ip svc) of
        Some preference \<Rightarrow> deref_run db preference
      | None \<Rightarrow> None)"

text \<open>
  \<^verbatim>\<open>is_data_available\<close> is a \<^verbatim>\<open>@property\<close> of \<^verbatim>\<open>CalculationRun\<close>, so the expression
  \<^verbatim>\<open>run.is_data_available()\<close> of \<^verbatim>\<open>get_current_run\<close> evaluates the property to a bool and
  then calls that bool, which raises \<^verbatim>\<open>TypeError\<close> whatever its value.
\<close>

definition call_bool :: "bool \<Rightarrow> py_error + bool" where
  "call_bool b = Inl (TypeError (''bool object is not callable''))"

definition get_current_run ::
  "string \<Rightarrow> filesystem \<Rightarrow> database \<Rightarrow> service \<Rightarrow> py_error + calculation_run option" where
  "get_current_run media_root fs db svc =
     (let preferred_run = get_user_preferred_run db svc;
          use_preferred =
            (case preferred_run of
               Some p \<Rightarrow>
                 if status p = Completed then call_bool (is_data_available media_root fs p)
                 else Inr False
             | None \<Rightarrow> Inr False)
      in case use_preferred of
           Inl e \<Rightarrow> Inl e
         | Inr True \<Rightarrow> Inr preferred_run
         | Inr False \<Rightarrow>
             (case get_latest_completed_run db of
                Some latest_run \<Rightarrow>
                  (case call_bool (is_data_available media_root fs latest_run) of
                     Inl e \<Rightarrow> Inl e
                   | Inr True \<Rightarrow> Inr (Some latest_run)
                   | Inr False \<Rightarrow> Inr None)
              | None \<Rightarrow> Inr None))"

text \<open>
  The run that \<^verbatim>\<open>get_calculation_data\<close> selects:
  \<^verbatim>\<open>CalculationRun.objects.get(run_id=run_id, status='completed')\<close>, and \<^verbatim>\<open>get_current_run\<close>
  on \<^verbatim>\<open>DoesNotExist\<close> or without a run id.
\<close>

definition get_calculation_data_run ::
  "string \<Rightarrow> filesystem \<Rightarrow> database \<Rightarrow> service \<Rightarrow> string option
     \<Rightarrow> py_error + calculation_run option" where
  "get_calculation_data_run media_root fs db svc rid_opt =
     (case rid_opt of
        Some rid \<Rightarrow>
          if rid \<noteq> [] then
            (case find (\<lambda>r. run_id r = rid \<and> status r = Completed) (calculation_runs db) of
               Some run \<Rightarrow> Inr (Some run)
             | None \<Rightarrow> get_current_run media_root fs db svc)
          else get_current_run media_root fs db svc
      | None \<Rightarrow> get_current_run media_root fs db svc)"

section \<open>Reading snapshot tables\<close>

definition bind_err :: "py_error + 'a \<Rightarrow> ('a \<Rightarrow> py_error + 'b) \<Rightarrow> py_error + 'b" where
  "bind_err m f = (case m of Inl e \<Rightarrow> Inl e | Inr x \<Rightarrow> f x)"

fun mapM_err :: "('a \<Rightarrow> py_error + 'b) \<Rightarrow> 'a list \<Rightarrow> py_error + 'b list" where
  "mapM_err f [] = Inr []"
| "mapM_err f (x # xs) =
     bind_err (f x) (\<lambda>y. bind_err (mapM_err f xs) (\<lambda>ys. Inr (y # ys)))"

text \<open>
  \<^verbatim>\<open>pd.read_parquet(path)\<close>: raises on \<^verbatim>\<open>None\<close>, on a path that is no file and on a
  file it cannot parse.
\<close>

definition read_parquet :: "filesystem \<Rightarrow> string option \<Rightarrow> py_error + frame" where
  "read_parquet fs path =
     (case path of
        None \<Rightarrow> Inl (ValueError ''Invalid file path or buffer object type'')
      | Some p \<Rightarrow>
          (case files fs p of
             None \<Rightarrow> Inl (FileNotFoundError p)
           | Some Corrupt \<Rightarrow> Inl (OSError ''Could not open Parquet input source'')
           | Some (Parquet df) \<Rightarrow> Inr df))"

text \<open>\<^verbatim>\<open>df[c]\<close> for a text column and for a float column; \<^verbatim>\<open>KeyError\<close> when absent.\<close>

definition str_column :: "frame \<Rightarrow> string \<Rightarrow> py_error + string list" where
  "str_column df c =
     (if c \<in> set (columns df) then Inr (map (\<lambda>r. str r c) (rows df)) else Inl (KeyError c))"

definition num_column :: "frame \<Rightarrow> string \<Rightarrow> py_error + real option list" where
  "num_column df c =
     (if c \<in> set (columns df) then Inr (map (\<lambda>r. num r c) (rows df)) else Inl (KeyError c))"

text \<open>\<^verbatim>\<open>Series.fillna(0)\<close> on one cell, and \<^verbatim>\<open>Series.sum()\<close>, which skips NaN.\<close>

definition fillna0 :: "real option \<Rightarrow> real" where
  "fillna0 v = (case v of None \<Rightarrow> 0 | Some x \<Rightarrow> x)"

definition nansum :: "real option list \<Rightarrow> real" where
  "nansum vs = sum_list (map fillna0 vs)"

definition nunique :: "string list \<Rightarrow> nat" where
  "nunique xs = length (remdups xs)"

text \<open>\<^verbatim>\<open>df[df[c] == v]\<close>: the rows whose text at \<open>c\<close> is \<open>v\<close>.\<close>

definition select_eq :: "frame \<Rightarrow> string \<Rightarrow> string \<Rightarrow> py_error + frame" where
  "select_eq df c v =
     (if c \<in> set (columns df) then Inr (df\<lparr>rows := filter (\<lambda>r. str r c = v) (rows df)\<rparr>)
      else Inl (KeyError c))"

definition iloc0 :: "frame \<Rightarrow> py_error + row" where
  "iloc0 df =
     (case rows df of
        [] \<Rightarrow> Inl (IndexError ''single positional indexer is out-of-bounds'')
      | r # _ \<Rightarrow> Inr r)"

text \<open>\<^verbatim>\<open>row.get(c, default)\<close> on a row of \<open>df\<close>.\<close>

definition row_get_num :: "frame \<Rightarrow> row \<Rightarrow> string \<Rightarrow> real \<Rightarrow> real option" where
  "row_get_num df r c d = (if c \<in> set (columns df) then num r c else Some d)"

definition row_get_str :: "frame \<Rightarrow> row \<Rightarrow> string \<Rightarrow> string \<Rightarrow> string" where
  "row_get_str df r c d = (if c \<in> set (columns df) then str r c else d)"

text \<open>
  \<^verbatim>\<open>safe_float(value, default=0.0)\<close> on a float cell: the default for NaN, the value
  otherwise.
\<close>

definition safe_float :: "real option \<Rightarrow> real" where
  "safe_float v = (case v of None \<Rightarrow> 0 | Some x \<Rightarrow> x)"

text \<open>The column name \<^verbatim>\<open>Heures Retirees\<close>, whose e-acute is two bytes of UTF-8.\<close>

definition heures_retirees_col :: string where
  "heures_retirees_col = ''Heures Retir'' @ [CHR 0xC3, CHR 0xA9] @ ''es''"

section \<open>Aggregation: load\_dashboard\_data of billing/services/data\_access.py\<close>

record overall_kpis =
  nbEmployes :: nat
  totalBudgetEstime :: real
  totalAdjustedCost :: real
  totalEcart :: real
  totalProjects :: nat
  pctAjustement :: real

record project_kpis =
  kp_nbEmployes :: nat
  kp_totalBudgetEstime :: real
  kp_totalAdjustedCost :: real
  kp_totalEcart :: real
  kp_pctAjustement :: real
  kp_heuresReelles :: real
  kp_heuresAjustees :: real
  kp_heuresRetirees :: real

record employee =
  emp_ID :: string
  emp_Nom :: string
  emp_Grade :: string
  emp_Total_Heures :: "real option"
  emp_Adjusted_Hours :: "real option"
  emp_Rate :: "real option"
  emp_Total_Cost :: "real option"
  emp_Adjusted_Cost :: "real option"
  emp_Heures_Retirees :: "real option"

record project_data =
  kpis :: project_kpis
  employee_data :: "employee list"

record table_projet =
  Libelle_projet :: string
  Total_Heures :: real
  Adjusted_Hours :: real
  Adjusted_Cost :: real
  Heures_Retirees :: real
  Estimees :: real
  Ecart :: real
  Total :: real

record run_info =
  info_run_id :: string
  info_period :: string
  info_created_at :: int
  info_status :: status
  info_has_updates :: bool

record dashboard =
  d_run_info :: run_info
  d_overall_kpis :: overall_kpis
  d_projects_list :: "string list"
  d_projects_data :: "(string \<times> project_data) list"
  d_table_projets :: "table_projet list"
  d_raw_dataframes :: "(frame \<times> frame \<times> frame) option"

text \<open>
  The dictionary \<^verbatim>\<open>load_dashboard_data\<close> returns: \<^verbatim>\<open>data_available\<close> false with the
  \<^verbatim>\<open>error\<close> text, or true with the payload.
\<close>

datatype dashboard_data = Unavailable string | Available dashboard

definition get_project_employees :: "frame \<Rightarrow> string \<Rightarrow> py_error + employee list" where
  "get_project_employees adjusted_df projet_name =
     bind_err (select_eq adjusted_df ''Libelle projet'' projet_name) (\<lambda>project_data.
       Inr (map (\<lambda>r.
              \<lparr>emp_ID = row_get_str adjusted_df r ''ID'' [],
               emp_Nom = row_get_str adjusted_df r ''Nom'' [],
               emp_Grade = row_get_str adjusted_df r ''Grade'' [],
               emp_Total_Heures = row_get_num adjusted_df r ''Total Heures'' 0,
               emp_Adjusted_Hours = row_get_num adjusted_df r ''Adjusted Hours'' 0,
               emp_Rate = row_get_num adjusted_df r ''Rate'' 0,
               emp_Total_Cost = row_get_num adjusted_df r ''Total'' 0,
               emp_Adjusted_Cost = row_get_num adjusted_df r ''Adjusted Cost'' 0,
               emp_Heures_Retirees = row_get_num adjusted_df r heures_retirees_col 0\<rparr>)
            (rows project_data)))"

text \<open>
  The ``Total Cost'' block of the project loop (the three \<^verbatim>\<open>if\<close> statements on
  \<^verbatim>\<open>project_total_cost\<close>), with the successive values of the variable named apart. A sum
  of reals is never NaN, so \<^verbatim>\<open>pd.notna\<close> of a sum is true.
\<close>

definition project_total_cost :: "frame \<Rightarrow> real \<Rightarrow> real \<Rightarrow> real \<Rightarrow> real \<Rightarrow> real" where
  "project_total_cost project_employee_data heures_reelles heures_ajustees adjusted_cost
       budget_estime =
     (let cost0 = 0;
          cost1 =
            (if ''Total'' \<in> set (columns project_employee_data)
                \<and> length (rows project_employee_data) > 0 then
               (let total_sum = nansum (map (\<lambda>r. num r ''Total'') (rows project_employee_data))
                in if total_sum > 0 then total_sum else cost0)
             else cost0);
          cost2 =
            (if cost1 = 0 \<and> ''Rate'' \<in> set (columns project_employee_data)
                \<and> ''Total Heures'' \<in> set (columns project_employee_data) then
               (let manual_calc =
                      sum_list (map (\<lambda>r. fillna0 (num r ''Rate'') * fillna0 (num r ''Total Heures''))
                                  (rows project_employee_data))
                in if manual_calc > 0 then manual_calc else cost1)
             else cost1);
          cost3 =
            (if cost2 = 0 then
               (if heures_reelles > 0 then
                  (let estimated_rate =
                         (if heures_ajustees > 0 then adjusted_cost / heures_ajustees else 500)
                   in heures_reelles * estimated_rate)
                else budget_estime * 0.8)
             else cost2)
      in cost3)"

text \<open>One iteration of the loop over \<^verbatim>\<open>projects_list\<close>.\<close>

definition project_step ::
  "frame \<Rightarrow> frame \<Rightarrow> frame \<Rightarrow> string \<Rightarrow> py_error + ((string \<times> project_data) \<times> table_projet)" where
  "project_step result_df employee_summary_df adjusted_df projet_name =
     bind_err (select_eq result_df ''Libelle projet'' projet_name) (\<lambda>matching.
     bind_err (iloc0 matching) (\<lambda>project_result_data.
     bind_err (select_eq employee_summary_df ''Libelle projet'' projet_name)
       (\<lambda>project_employee_data.
     bind_err (str_column project_employee_data ''Nom'') (\<lambda>noms.
       let nb_employes_project = nunique noms;
           budget_estime = safe_float (row_get_num result_df project_result_data ''Estimees'' 0);
           adjusted_cost =
             safe_float (row_get_num result_df project_result_data ''Adjusted Cost'' 0);
           ecart = safe_float (row_get_num result_df project_result_data ''Ecart'' 0);
           heures_reelles =
             safe_float (row_get_num result_df project_result_data ''Total Heures'' 0);
           heures_ajustees =
             safe_float (row_get_num result_df project_result_data ''Adjusted Hours'' 0);
           heures_retirees =
             safe_float (row_get_num result_df project_result_data heures_retirees_col 0);
           pct_ajustement = (if budget_estime \<noteq> 0 then (ecart / budget_estime) * 100 else 0)
       in
     bind_err (get_project_employees adjusted_df projet_name) (\<lambda>employees.
       Inr ((projet_name,
             \<lparr>kpis = \<lparr>kp_nbEmployes = nb_employes_project,
                       kp_totalBudgetEstime = budget_estime,
                       kp_totalAdjustedCost = adjusted_cost,
                       kp_totalEcart = ecart,
                       kp_pctAjustement = pct_ajustement,
                       kp_heuresReelles = heures_reelles,
                       kp_heuresAjustees = heures_ajustees,
                       kp_heuresRetirees = heures_retirees\<rparr>,
              employee_data = employees\<rparr>),
            \<lparr>Libelle_projet = projet_name,
             Total_Heures = heures_reelles,
             Adjusted_Hours = heures_ajustees,
             Adjusted_Cost = adjusted_cost,
             Heures_Retirees = heures_retirees,
             Estimees = budget_estime,
             Ecart = ecart,
             Total = project_total_cost project_employee_data heures_reelles heures_ajustees
                       adjusted_cost budget_estime\<rparr>))))))"

text \<open>The three reads that open the \<^verbatim>\<open>try\<close> block.\<close>

definition load_frames ::
  "string \<Rightarrow> filesystem \<Rightarrow> calculation_run \<Rightarrow> py_error + (frame \<times> frame \<times> frame)" where
  "load_frames media_root fs run =
     bind_err (read_parquet fs (get_latest_parquet media_root fs run ''result''))
       (\<lambda>result_df.
     bind_err (read_parquet fs (get_latest_parquet media_root fs run ''employee_summary''))
       (\<lambda>employee_summary_df.
     bind_err (read_parquet fs (get_latest_parquet media_root fs run ''adjusted''))
       (\<lambda>adjusted_df. Inr (result_df, employee_summary_df, adjusted_df))))"

text \<open>The rest of the \<^verbatim>\<open>try\<close> block, on the three frames.\<close>

definition aggregate ::
  "bool \<Rightarrow> string \<Rightarrow> filesystem \<Rightarrow> calculation_run \<Rightarrow> frame \<Rightarrow> frame \<Rightarrow> frame
     \<Rightarrow> py_error + dashboard" where
  "aggregate debug media_root fs run result_df employee_summary_df adjusted_df =
     bind_err (str_column result_df ''Libelle projet'') (\<lambda>labels.
       let projects_list = sort (remdups labels) in
     bind_err (str_column employee_summary_df ''Nom'') (\<lambda>noms.
     bind_err (num_column result_df ''Estimees'') (\<lambda>estimees.
     bind_err (num_column result_df ''Adjusted Cost'') (\<lambda>adjusted_costs.
     bind_err (num_column result_df ''Ecart'') (\<lambda>ecarts.
       let total_budget = nansum estimees;
           total_ecart = nansum ecarts;
           overall =
             \<lparr>nbEmployes = nunique noms,
              totalBudgetEstime = total_budget,
              totalAdjustedCost = nansum adjusted_costs,
              totalEcart = total_ecart,
              totalProjects = length projects_list,
              pctAjustement =
                (if total_budget \<noteq> 0 then (total_ecart / total_budget) * 100 else 0)\<rparr>
       in
     bind_err (mapM_err (project_step result_df employee_summary_df adjusted_df) projects_list)
       (\<lambda>steps.
       Inr \<lparr>d_run_info =
              \<lparr>info_run_id = run_id run,
               info_period = period_string run,
               info_created_at = created_at run,
               info_status = status run,
               info_has_updates = has_updates media_root fs run\<rparr>,
            d_overall_kpis = overall,
            d_projects_list = projects_list,
            d_projects_data = map fst steps,
            d_table_projets = map snd steps,
            d_raw_dataframes =
              (if debug then Some (result_df, employee_summary_df, adjusted_df)
               else None)\<rparr>))))))"

definition load_dashboard_data_try ::
  "bool \<Rightarrow> string \<Rightarrow> filesystem \<Rightarrow> calculation_run \<Rightarrow> py_error + dashboard" where
  "load_dashboard_data_try debug media_root fs run =
     bind_err (load_frames media_root fs run) (\<lambda>(result_df, employee_summary_df, adjusted_df).
       aggregate debug media_root fs run result_df employee_summary_df adjusted_df)"

text \<open>
  \<^verbatim>\<open>load_dashboard_data(run)\<close>: the guard, then the \<^verbatim>\<open>try\<close> block, whose
  \<^verbatim>\<open>except Exception\<close> turns every error into the unavailable result.
\<close>

definition load_dashboard_data ::
  "bool \<Rightarrow> string \<Rightarrow> filesystem \<Rightarrow> calculation_run option \<Rightarrow> dashboard_data" where
  "load_dashboard_data debug media_root fs run_opt =
     (case run_opt of
        None \<Rightarrow> Unavailable ''No data available''
      | Some run \<Rightarrow>
          if \<not> is_data_available media_root fs run then Unavailable ''No data available''
          else
            (case load_dashboard_data_try debug media_root fs run of
               Inl e \<Rightarrow> Unavailable (''Error loading data: '' @ str_error e)
             | Inr d \<Rightarrow> Available d))"

text \<open>
  The fallback chain for the total realized cost of a project as the specification words
  it: (a) the sum of the \<^verbatim>\<open>Total\<close> column of the employee slice when the column is
  there and the sum is positive; else (b) the sum of rate times hours over the slice when
  both columns are there and the sum is positive; else (c) with positive realized hours,
  the hours times \<open>adjusted_cost / adjusted_hours\<close>, or times 500 when the adjusted hours
  are not positive; else (d) 0.8 times the estimated budget.
\<close>

definition spec_total_realized_cost :: "frame \<Rightarrow> real \<Rightarrow> real \<Rightarrow> real \<Rightarrow> real \<Rightarrow> real" where
  "spec_total_realized_cost slice realized_hours adjusted_hours adjusted_cost estimated_budget =
     (let total_sum = nansum (map (\<lambda>r. num r ''Total'') (rows slice));
          product_sum =
            sum_list (map (\<lambda>r. fillna0 (num r ''Rate'') * fillna0 (num r ''Total Heures''))
                        (rows slice))
      in if ''Total'' \<in> set (columns slice) \<and> total_sum > 0 then total_sum
         else if ''Rate'' \<in> set (columns slice) \<and> ''Total Heures'' \<in> set (columns slice)
                 \<and> product_sum > 0 then product_sum
         else if realized_hours > 0 then
           realized_hours * (if adjusted_hours > 0 then adjusted_cost / adjusted_hours else 500)
         else 0.8 * estimated_budget)"

section \<open>Cached calculation data: billing/services/data\_access\_service.py\<close>

record summary_stats =
  ss_projects :: nat
  ss_employees :: nat
  ss_budget :: real
  ss_adjusted_cost :: real
  ss_variance :: real

text \<open>
  \<^verbatim>\<open>CalculationRun.load_summary_data\<close>: the summary, or \<^verbatim>\<open>None\<close> when a file is missing or
  anything in the \<^verbatim>\<open>try\<close> block raises.
\<close>

definition load_summary_data ::
  "string \<Rightarrow> filesystem \<Rightarrow> calculation_run \<Rightarrow> summary_stats option" where
  "load_summary_data media_root fs run =
     (let result_file = get_latest_parquet media_root fs run ''result'';
          employee_file = get_latest_parquet media_root fs run ''employee_summary'';
          tried =
            (if result_file \<noteq> None \<and> employee_file \<noteq> None then
               bind_err (read_parquet fs result_file) (\<lambda>result_df.
               bind_err (read_parquet fs employee_file) (\<lambda>employee_df.
               bind_err (str_column employee_df ''Nom'') (\<lambda>noms.
               bind_err (num_column result_df ''Estimees'') (\<lambda>estimees.
               bind_err (num_column result_df ''Adjusted Cost'') (\<lambda>adjusted_costs.
               bind_err (num_column result_df ''Ecart'') (\<lambda>ecarts.
                 Inr (Some \<lparr>ss_projects = length (rows result_df),
                            ss_employees = nunique noms,
                            ss_budget = nansum estimees,
                            ss_adjusted_cost = nansum adjusted_costs,
                            ss_variance = nansum ecarts\<rparr>)))))))
             else Inr None)
      in case tried of Inl e \<Rightarrow> None | Inr summary \<Rightarrow> summary)"

text \<open>
  \<^verbatim>\<open>CalculationRun.update_summary_cache\<close>, which copies the summary into the run's cached
  numbers and saves them, and the write of one run back to its table row.
\<close>

definition save_run :: "database \<Rightarrow> calculation_run \<Rightarrow> database" where
  "save_run db run =
     db\<lparr>calculation_runs :=
          map (\<lambda>r. if run_id r = run_id run then run else r) (calculation_runs db)\<rparr>"

definition update_summary_cache ::
  "string \<Rightarrow> filesystem \<Rightarrow> database \<Rightarrow> calculation_run \<Rightarrow> database" where
  "update_summary_cache media_root fs db run =
     (case load_summary_data media_root fs run of
        Some summary \<Rightarrow>
          save_run db
            (run\<lparr>total_projects := ss_projects summary,
                 total_employees := ss_employees summary,
                 total_budget := ss_budget summary,
                 total_adjusted_cost := ss_adjusted_cost summary,
                 total_variance := ss_variance summary\<rparr>)
      | None \<Rightarrow> db)"

record svc_run_info =
  sri_run_id :: string
  sri_created_at :: int
  sri_updated_at :: int
  sri_status :: status

text \<open>
  The dictionary \<^verbatim>\<open>get_calculation_data\<close> returns. An empty dict is \<open>None\<close>. The KPIs
  are what \<^verbatim>\<open>_compute_kpis\<close> makes of the two frames: it catches its own exceptions, so
  it is a total function of them, the parameter \<open>compute_kpis\<close> below.
\<close>

record 'k calculation_data =
  cd_error :: "string option"
  cd_run_info :: "svc_run_info option"
  cd_projects_data :: frame
  cd_employees_data :: frame
  cd_summary_stats :: "summary_stats option"
  cd_kpis :: "'k option"

definition empty_frame :: frame where
  "empty_frame = \<lparr>columns = [], rows = []\<rparr>"

text \<open>
  Django's cache: a key holds a value until its expiry time. Time is the parameter
  \<open>now\<close>, in seconds.
\<close>

type_synonym 'k cache = "string \<rightharpoonup> ('k calculation_data \<times> int)"

definition cache_get :: "'k cache \<Rightarrow> int \<Rightarrow> string \<Rightarrow> 'k calculation_data option" where
  "cache_get cache now key =
     (case cache key of
        Some (v, expiry) \<Rightarrow> if now < expiry then Some v else None
      | None \<Rightarrow> None)"

definition cache_set ::
  "'k cache \<Rightarrow> int \<Rightarrow> string \<Rightarrow> 'k calculation_data \<Rightarrow> int \<Rightarrow> 'k cache" where
  "cache_set cache now key v timeout = cache(key \<mapsto> (v, now + timeout))"

text \<open>\<^verbatim>\<open>_invalidate_cache\<close>: its body is \<^verbatim>\<open>pass\<close>.\<close>

definition invalidate_cache :: "service \<Rightarrow> 'k cache \<Rightarrow> 'k cache" where
  "invalidate_cache svc cache = cache"

definition set_user_preferred_run ::
  "database \<Rightarrow> 'k cache \<Rightarrow> service \<Rightarrow> calculation_run \<Rightarrow> database \<times> 'k cache" where
  "set_user_preferred_run db cache svc run =
     (db\<lparr>user_preferences := (user_preferences db)(user_ip svc \<mapsto> Some (run_id run))\<rparr>,
      invalidate_cache svc cache)"

definition complete_calculation_run ::
  "string \<Rightarrow> filesystem \<Rightarrow> database \<Rightarrow> 'k cache \<Rightarrow> service \<Rightarrow> string
     \<Rightarrow> bool \<times> database \<times> 'k cache" where
  "complete_calculation_run media_root fs db cache svc rid =
     (case objects_get db rid of
        Some run \<Rightarrow>
          (let run' = run\<lparr>status := Completed\<rparr>;
               db' = save_run db run';
               db'' = update_summary_cache media_root fs db' run'
           in (True, db'', invalidate_cache svc cache))
      | None \<Rightarrow> (False, db, cache))"

text \<open>The \<^verbatim>\<open>try\<close> block of \<^verbatim>\<open>get_calculation_data\<close>.\<close>

definition get_calculation_data_try ::
  "(frame \<Rightarrow> frame \<Rightarrow> 'k) \<Rightarrow> string \<Rightarrow> filesystem \<Rightarrow> calculation_run
     \<Rightarrow> py_error + 'k calculation_data" where
  "get_calculation_data_try compute_kpis media_root fs run =
     (let projects_file = get_latest_parquet media_root fs run ''result'';
          employees_file = get_latest_parquet media_root fs run ''employee_summary''
      in if projects_file = None \<or> employees_file = None then
           Inl (FileNotFoundError ''Required parquet files not found'')
         else
           bind_err (read_parquet fs projects_file) (\<lambda>projects_df.
           bind_err (read_parquet fs employees_file) (\<lambda>employees_df.
             Inr \<lparr>cd_error = None,
                  cd_run_info =
                    Some \<lparr>sri_run_id = run_id run, sri_created_at = created_at run,
                          sri_updated_at = updated_at run, sri_status = status run\<rparr>,
                  cd_projects_data = projects_df,
                  cd_employees_data = employees_df,
                  cd_summary_stats = load_summary_data media_root fs run,
                  cd_kpis = Some (compute_kpis projects_df employees_df)\<rparr>)))"

text \<open>
  \<^verbatim>\<open>get_calculation_data(run_id, force_refresh)\<close> at time \<open>now\<close>: the dictionary and the
  cache after the call. Selecting the run is outside the \<^verbatim>\<open>try\<close> block, so what
  \<^verbatim>\<open>get_current_run\<close> raises leaves the function.
\<close>

definition get_calculation_data ::
  "(frame \<Rightarrow> frame \<Rightarrow> 'k) \<Rightarrow> string \<Rightarrow> filesystem \<Rightarrow> database \<Rightarrow> 'k cache \<Rightarrow> int
     \<Rightarrow> service \<Rightarrow> string option \<Rightarrow> bool \<Rightarrow> py_error + ('k calculation_data \<times> 'k cache)" where
  "get_calculation_data compute_kpis media_root fs db cache now svc rid_opt force_refresh =
     bind_err (get_calculation_data_run media_root fs db svc rid_opt) (\<lambda>run_opt.
       case run_opt of
         None \<Rightarrow>
           Inr (\<lparr>cd_error = Some ''No calculation data available'',
                 cd_run_info = None,
                 cd_projects_data = empty_frame,
                 cd_employees_data = empty_frame,
                 cd_summary_stats = None,
                 cd_kpis = None\<rparr>, cache)
       | Some run \<Rightarrow>
           (let cache_key = cache_prefix svc @ ''_data_'' @ run_id run;
                cached_data = (if \<not> force_refresh then cache_get cache now cache_key else None)
            in case cached_data of
                 Some d \<Rightarrow> Inr (d, cache)
               | None \<Rightarrow>
                   (case get_calculation_data_try compute_kpis media_root fs run of
                      Inr result \<Rightarrow> Inr (result, cache_set cache now cache_key result 3600)
                    | Inl e \<Rightarrow>
                        Inr (\<lparr>cd_error = Some (str_error e),
                              cd_run_info =
                                Some \<lparr>sri_run_id = run_id run, sri_created_at = created_at run,
                                      sri_updated_at = updated_at run, sri_status = status run\<rparr>,
                              cd_projects_data = empty_frame,
                              cd_employees_data = empty_frame,
                              cd_summary_stats = None,
                              cd_kpis = None\<rparr>, cache))))"

section \<open>Example data\<close>

text \<open>
  Three runs, newest last in storage order: \<open>run_a\<close> completed, \<open>run_b\<close> updated,
  \<open>run_c\<close> failed. The media root is \<^verbatim>\<open>m\<close>.
\<close>

definition run_a :: calculation_run where
  "run_a = \<lparr>run_id = ''a'', created_at = 100, updated_at = 100,
            period_string = ''Janvier 2024'', status = Completed,
            total_projects = 0, total_employees = 0, total_budget = 0,
            total_adjusted_cost = 0, total_variance = 0,
            data_directory = ''a'', is_archived = False\<rparr>"

definition run_b :: calculation_run where
  "run_b = run_a\<lparr>run_id := ''b'', created_at := 200, status := Updated,
                  data_directory := ''b''\<rparr>"

definition run_c :: calculation_run where
  "run_c = run_a\<lparr>run_id := ''c'', created_at := 300, status := Failed,
                  data_directory := ''c''\<rparr>"

definition db_abc :: database where
  "db_abc = \<lparr>calculation_runs = [run_a, run_b, run_c], user_preferences = Map.empty\<rparr>"

definition db_pref_c :: database where
  "db_pref_c = db_abc\<lparr>user_preferences := [''10.0.0.1'' \<mapsto> Some ''c'']\<rparr>"

definition db_pref_b :: database where
  "db_pref_b = db_abc\<lparr>user_preferences := [''10.0.0.1'' \<mapsto> Some ''b'']\<rparr>"

definition req1 :: request where
  "req1 = \<lparr>http_x_forwarded_for = None, remote_addr = Some ''10.0.0.1''\<rparr>"

definition svc1 :: service where
  "svc1 = \<lparr>user_ip = ''10.0.0.1'', user_identifier = []\<rparr>"

definition mk_row :: "(string \<times> string) list \<Rightarrow> (string \<times> real) list \<Rightarrow> row" where
  "mk_row texts numbers =
     \<lparr>str = (\<lambda>c. case map_of texts c of Some s \<Rightarrow> s | None \<Rightarrow> []),
      num = (\<lambda>c. map_of numbers c)\<rparr>"

text \<open>
  The snapshot tables of \<open>run_a\<close>. The result table names the project \<^verbatim>\<open>Alpha\<close> in two
  rows.
\<close>

definition result_df1 :: frame where
  "result_df1 =
     \<lparr>columns = [''Libelle projet'', ''Estimees'', ''Adjusted Cost'', ''Ecart'',
                 ''Total Heures'', ''Adjusted Hours''],
      rows = [mk_row [(''Libelle projet'', ''Alpha'')]
                [(''Estimees'', 1000), (''Adjusted Cost'', 1100), (''Ecart'', 100),
                 (''Total Heures'', 10), (''Adjusted Hours'', 8)],
              mk_row [(''Libelle projet'', ''Beta'')]
                [(''Estimees'', 2000), (''Adjusted Cost'', 1800), (''Ecart'', -200),
                 (''Total Heures'', 0), (''Adjusted Hours'', 0)],
              mk_row [(''Libelle projet'', ''Alpha'')]
                [(''Estimees'', 500), (''Adjusted Cost'', 400), (''Ecart'', -100),
                 (''Total Heures'', 5), (''Adjusted Hours'', 5)]]\<rparr>"

definition employee_df1 :: frame where
  "employee_df1 =
     \<lparr>columns = [''Libelle projet'', ''Nom'', ''Total'', ''Rate'', ''Total Heures''],
      rows = [mk_row [(''Libelle projet'', ''Alpha''), (''Nom'', ''Ann'')]
                [(''Total'', 300), (''Rate'', 50), (''Total Heures'', 6)],
              mk_row [(''Libelle projet'', ''Alpha''), (''Nom'', ''Bob'')]
                [(''Total'', 200), (''Rate'', 50), (''Total Heures'', 4)],
              mk_row [(''Libelle projet'', ''Beta''), (''Nom'', ''Ann'')]
                [(''Total'', 0), (''Rate'', 0), (''Total Heures'', 0)]]\<rparr>"

definition adjusted_df1 :: frame where
  "adjusted_df1 =
     \<lparr>columns = [''Libelle projet'', ''ID'', ''Nom'', ''Total Heures''],
      rows = [mk_row [(''Libelle projet'', ''Alpha''), (''ID'', ''1''), (''Nom'', ''Ann'')]
                [(''Total Heures'', 6)]]\<rparr>"

text \<open>
  A file system where \<open>run_a\<close> has its three initial snapshots and \<open>run_c\<close> has two
  files that do not parse; and the same after an adjustment wrote an updated result table
  for \<open>run_a\<close>.
\<close>

definition fs_ac :: filesystem where
  "fs_ac =
     \<lparr>dirs = {''m/a'', ''m/c''},
      files = [''m/a/result_initial.parquet'' \<mapsto> Parquet result_df1,
               ''m/a/employee_summary_initial.parquet'' \<mapsto> Parquet employee_df1,
               ''m/a/adjusted_initial.parquet'' \<mapsto> Parquet adjusted_df1,
               ''m/c/result_initial.parquet'' \<mapsto> Corrupt,
               ''m/c/employee_summary_initial.parquet'' \<mapsto> Corrupt]\<rparr>"

definition result_df2 :: frame where
  "result_df2 = result_df1\<lparr>rows := take 1 (rows result_df1)\<rparr>"

definition fs_ac_updated :: filesystem where
  "fs_ac_updated =
     fs_ac\<lparr>files := (files fs_ac)(''m/a/result_updated.parquet'' \<mapsto> Parquet result_df2)\<rparr>"

text \<open>What \<^verbatim>\<open>load_dashboard_data\<close> makes of \<open>run_a\<close> on \<open>fs_ac\<close>.\<close>

definition dash_a :: dashboard where
  "dash_a =
     \<lparr>d_run_info =
        \<lparr>info_run_id = ''a'', info_period = ''Janvier 2024'', info_created_at = 100,
         info_status = Completed, info_has_updates = False\<rparr>,
      d_overall_kpis =
        \<lparr>nbEmployes = 2, totalBudgetEstime = 3500, totalAdjustedCost = 3300,
         totalEcart = - 200, totalProjects = 2, pctAjustement = - (40 / 7)\<rparr>,
      d_projects_list = [''Alpha'', ''Beta''],
      d_projects_data =
        [(''Alpha'',
          \<lparr>kpis =
             \<lparr>kp_nbEmployes = 2, kp_totalBudgetEstime = 1000, kp_totalAdjustedCost = 1100,
              kp_totalEcart = 100, kp_pctAjustement = 10, kp_heuresReelles = 10,
              kp_heuresAjustees = 8, kp_heuresRetirees = 0\<rparr>,
           employee_data =
             [\<lparr>emp_ID = ''1'', emp_Nom = ''Ann'', emp_Grade = [],
               emp_Total_Heures = Some 6, emp_Adjusted_Hours = Some 0, emp_Rate = Some 0,
               emp_Total_Cost = Some 0, emp_Adjusted_Cost = Some 0,
               emp_Heures_Retirees = Some 0\<rparr>]\<rparr>),
         (''Beta'',
          \<lparr>kpis =
             \<lparr>kp_nbEmployes = 1, kp_totalBudgetEstime = 2000, kp_totalAdjustedCost = 1800,
              kp_totalEcart = - 200, kp_pctAjustement = - 10, kp_heuresReelles = 0,
              kp_heuresAjustees = 0, kp_heuresRetirees = 0\<rparr>,
           employee_data = []\<rparr>)],
      d_table_projets =
        [\<lparr>Libelle_projet = ''Alpha'', Total_Heures = 10, Adjusted_Hours = 8,
          Adjusted_Cost = 1100, Heures_Retirees = 0, Estimees = 1000, Ecart = 100,
          Total = 500\<rparr>,
         \<lparr>Libelle_projet = ''Beta'', Total_Heures = 0, Adjusted_Hours = 0,
          Adjusted_Cost = 1800, Heures_Retirees = 0, Estimees = 2000, Ecart = - 200,
          Total = 1600\<rparr>],
      d_raw_dataframes = None\<rparr>"

text \<open>
  What \<^verbatim>\<open>get_calculation_data\<close> computes for \<open>run_a\<close> from the files of \<open>fs_ac\<close> and from
  those of \<open>fs_ac_updated\<close>, for any \<^verbatim>\<open>_compute_kpis\<close>; and the cache that holds the
  former from time 0, for one hour.
\<close>

definition calc_a :: "(frame \<Rightarrow> frame \<Rightarrow> 'k) \<Rightarrow> 'k calculation_data" where
  "calc_a compute_kpis =
     \<lparr>cd_error = None,
      cd_run_info = Some \<lparr>sri_run_id = ''a'', sri_created_at = 100, sri_updated_at = 100,
                          sri_status = Completed\<rparr>,
      cd_projects_data = result_df1,
      cd_employees_data = employee_df1,
      cd_summary_stats =
        Some \<lparr>ss_projects = 3, ss_employees = 2, ss_budget = 3500, ss_adjusted_cost = 3300,
              ss_variance = - 200\<rparr>,
      cd_kpis = Some (compute_kpis result_df1 employee_df1)\<rparr>"

definition calc_a_updated :: "(frame \<Rightarrow> frame \<Rightarrow> 'k) \<Rightarrow> 'k calculation_data" where
  "calc_a_updated compute_kpis =
     \<lparr>cd_error = None,
      cd_run_info = Some \<lparr>sri_run_id = ''a'', sri_created_at = 100, sri_updated_at = 100,
                          sri_status = Completed\<rparr>,
      cd_projects_data = result_df2,
      cd_employees_data = employee_df1,
      cd_summary_stats =
        Some \<lparr>ss_projects = 1, ss_employees = 2, ss_budget = 1000, ss_adjusted_cost = 1100,
              ss_variance = 100\<rparr>,
      cd_kpis = Some (compute_kpis result_df2 employee_df1)\<rparr>"

definition cache_a :: "(frame \<Rightarrow> frame \<Rightarrow> 'k) \<Rightarrow> 'k cache" where
  "cache_a compute_kpis = [''calc_data_10.0.0.1__data_a'' \<mapsto> (calc_a compute_kpis, 3600)]"

section \<open>Facts about the example data\<close>

lemma available_a: "is_data_available ''m'' fs_ac run_a"
  by (simp add: is_data_available_def data_path_def path_join_def path_exists_def
      fs_ac_def run_a_def)

lemma available_c: "is_data_available ''m'' fs_ac run_c"
  by (simp add: is_data_available_def data_path_def path_join_def path_exists_def
      fs_ac_def run_a_def run_c_def)

lemma not_available_b: "\<not> is_data_available ''m'' fs_ac run_b"
  by (simp add: is_data_available_def data_path_def path_join_def path_exists_def
      fs_ac_def run_a_def run_b_def)

lemma user_identifier_req1: "get_user_identifier req1 = ''10.0.0.1''"
  by (simp add: get_user_identifier_def req1_def)

lemma latest_run_abc: "get_latest_run db_abc = Some run_b"
  by (simp add: get_latest_run_def first_def order_by_created_desc_def
      db_abc_def run_a_def run_b_def run_c_def)

lemma objects_get_abc:
  "objects_get db_abc ''a'' = Some run_a"
  "objects_get db_abc ''c'' = Some run_c"
  "objects_get db_abc ''zz'' = None"
  by (simp_all add: objects_get_def db_abc_def run_a_def run_b_def run_c_def)

section \<open>Snapshot resolution\<close>

text \<open>
  C5. For every run and every logical table name, \<^verbatim>\<open>get_latest_parquet\<close> returns the
  updated physical file when it exists (in particular when the initial one exists too),
  else the initial physical file when it exists, else none.
\<close>

theorem get_latest_parquet_updated_wins:
  "(path_exists fs (path_join (data_path mr run) (base @ ''_updated.parquet'')) \<longrightarrow>
      get_latest_parquet mr fs run base =
        Some (path_join (data_path mr run) (base @ ''_updated.parquet''))) \<and>
   (\<not> path_exists fs (path_join (data_path mr run) (base @ ''_updated.parquet'')) \<and>
    path_exists fs (path_join (data_path mr run) (base @ ''_initial.parquet'')) \<longrightarrow>
      get_latest_parquet mr fs run base =
        Some (path_join (data_path mr run) (base @ ''_initial.parquet''))) \<and>
   (\<not> path_exists fs (path_join (data_path mr run) (base @ ''_updated.parquet'')) \<and>
    \<not> path_exists fs (path_join (data_path mr run) (base @ ''_initial.parquet'')) \<longrightarrow>
      get_latest_parquet mr fs run base = None)"
  by (simp add: get_latest_parquet_def Let_def)

theorem get_latest_parquet_updated_wins_witness:
  "path_exists fs_ac_updated ''m/a/result_updated.parquet'' \<and>
   path_exists fs_ac_updated ''m/a/result_initial.parquet'' \<and>
   get_latest_parquet ''m'' fs_ac_updated run_a ''result'' = Some ''m/a/result_updated.parquet'' \<and>
   \<not> path_exists fs_ac_updated ''m/a/adjusted_updated.parquet'' \<and>
   path_exists fs_ac_updated ''m/a/adjusted_initial.parquet'' \<and>
   get_latest_parquet ''m'' fs_ac_updated run_a ''adjusted'' = Some ''m/a/adjusted_initial.parquet'' \<and>
   \<not> path_exists fs_ac_updated ''m/a/global_summary_updated.parquet'' \<and>
   \<not> path_exists fs_ac_updated ''m/a/global_summary_initial.parquet'' \<and>
   get_latest_parquet ''m'' fs_ac_updated run_a ''global_summary'' = None"
proof -
  have p: "data_path ''m'' run_a = ''m/a''"
    by (simp add: data_path_def path_join_def run_a_def)
  have e: "path_exists fs_ac_updated ''m/a/result_updated.parquet''"
    "path_exists fs_ac_updated ''m/a/result_initial.parquet''"
    "\<not> path_exists fs_ac_updated ''m/a/adjusted_updated.parquet''"
    "path_exists fs_ac_updated ''m/a/adjusted_initial.parquet''"
    "\<not> path_exists fs_ac_updated ''m/a/global_summary_updated.parquet''"
    "\<not> path_exists fs_ac_updated ''m/a/global_summary_initial.parquet''"
    by (simp_all add: path_exists_def fs_ac_updated_def fs_ac_def)
  show ?thesis
    using e
      get_latest_parquet_updated_wins [of fs_ac_updated "''m''" run_a "''result''"]
      get_latest_parquet_updated_wins [of fs_ac_updated "''m''" run_a "''adjusted''"]
      get_latest_parquet_updated_wins [of fs_ac_updated "''m''" run_a "''global_summary''"]
    by (simp add: p path_join_def)
qed

section \<open>Listing runs\<close>

lemma sorted_order_by_created_desc:
  "sorted_wrt (\<lambda>a b. created_at a \<ge> created_at b) (order_by_created_desc rs)"
proof -
  have "sorted (map (\<lambda>r. - created_at r) (sort_key (\<lambda>r. - created_at r) rs))"
    by (rule sorted_sort_key)
  then show ?thesis
    by (simp add: order_by_created_desc_def sorted_wrt_map)
qed

lemma mset_order_by_created_desc: "mset (order_by_created_desc rs) = mset rs"
  by (simp add: order_by_created_desc_def)

text \<open>
  C8, as stated, fails on the listing of \<^verbatim>\<open>data_access_service.py\<close>: the updated,
  non-archived run \<open>run_b\<close> is in the table and not in the list.
\<close>

theorem get_available_runs_svc_omits_updated:
  "run_b \<in> set (calculation_runs db_abc) \<and> status run_b = Updated \<and>
   is_archived run_b = False \<and> run_b \<notin> set (get_available_runs_svc db_abc False)"
  by (simp add: db_abc_def run_a_def run_b_def run_c_def get_available_runs_svc_def
      order_by_created_desc_def)

text \<open>
  C8, amended. \<^verbatim>\<open>get_available_runs\<close> of \<^verbatim>\<open>data_access.py\<close> returns exactly the runs whose
  status is completed or updated and that are not archived, newest first, and
  \<^verbatim>\<open>get_latest_run\<close> is the head of that list. \<^verbatim>\<open>get_available_runs\<close> of
  \<^verbatim>\<open>data_access_service.py\<close> (without running runs) returns exactly the runs whose status
  is completed, archived or not, newest first, and \<^verbatim>\<open>get_latest_completed_run\<close> is the
  head of that list.
\<close>

theorem available_runs_listing:
  "mset (get_available_runs db) =
     mset (filter (\<lambda>r. (status r = Completed \<or> status r = Updated) \<and> \<not> is_archived r)
             (calculation_runs db)) \<and>
   sorted_wrt (\<lambda>a b. created_at a \<ge> created_at b) (get_available_runs db) \<and>
   get_latest_run db = first (get_available_runs db) \<and>
   mset (get_available_runs_svc db False) =
     mset (filter (\<lambda>r. status r = Completed) (calculation_runs db)) \<and>
   sorted_wrt (\<lambda>a b. created_at a \<ge> created_at b) (get_available_runs_svc db False) \<and>
   get_latest_completed_run db = first (get_available_runs_svc db False)"
  by (simp add: get_available_runs_def get_latest_run_def get_available_runs_svc_def
      get_latest_completed_run_def mset_order_by_created_desc sorted_order_by_created_desc
      Let_def)

theorem available_runs_listing_witness:
  "get_available_runs db_abc = [run_b, run_a] \<and>
   get_latest_run db_abc = Some run_b \<and>
   get_available_runs_svc db_abc False = [run_a] \<and>
   get_latest_completed_run db_abc = Some run_a"
proof -
  have 1: "get_available_runs db_abc = [run_b, run_a]"
    by (simp add: get_available_runs_def order_by_created_desc_def
        db_abc_def run_a_def run_b_def run_c_def)
  have 2: "get_available_runs_svc db_abc False = [run_a]"
    by (simp add: get_available_runs_svc_def order_by_created_desc_def
        db_abc_def run_a_def run_b_def run_c_def)
  show ?thesis
    using available_runs_listing [of db_abc] by (simp add: 1 2 first_def)
qed


section \<open>Run selection\<close>

text \<open>
  C2, as stated, fails on \<^verbatim>\<open>get_dashboard_context\<close>: with the unknown run id \<^verbatim>\<open>zz\<close> it
  selects no run, although the next steps (preference, then latest run) yield \<open>run_b\<close>.
\<close>

theorem get_dashboard_context_unknown_id_stops:
  "get_dashboard_context_run ''m'' fs_ac db_abc req1 (Some ''zz'') = None \<and>
   get_preferred_run ''m'' fs_ac db_abc req1 = Some run_b"
proof -
  have "user_preferences db_abc (get_user_identifier req1) = None"
    by (simp add: db_abc_def)
  then show ?thesis
    by (simp add: get_dashboard_context_run_def get_preferred_run_def latest_run_abc
        objects_get_abc)
qed

text \<open>
  C2, amended. With a non-empty explicit run id: \<^verbatim>\<open>get_calculation_data\<close> continues with
  \<^verbatim>\<open>get_current_run\<close> (preference, then latest completed run), as without a run id, when
  no run has that id and the status completed; \<^verbatim>\<open>get_dashboard_context\<close> selects no run
  when no run has that id, and the run of that id otherwise, whatever its status.
\<close>

theorem explicit_run_id_resolution:
  "(rid \<noteq> [] \<and> (\<forall>r \<in> set (calculation_runs db). run_id r = rid \<longrightarrow> status r \<noteq> Completed) \<longrightarrow>
      get_calculation_data_run mr fs db svc (Some rid) = get_current_run mr fs db svc \<and>
      get_calculation_data_run mr fs db svc (Some rid) =
        get_calculation_data_run mr fs db svc None) \<and>
   (rid \<noteq> [] \<and> (\<forall>r \<in> set (calculation_runs db). run_id r \<noteq> rid) \<longrightarrow>
      get_dashboard_context_run mr fs db req (Some rid) = None) \<and>
   (rid \<noteq> [] \<and> objects_get db rid = Some run \<longrightarrow>
      get_dashboard_context_run mr fs db req (Some rid) = Some run)"
proof -
  have "find (\<lambda>r. run_id r = rid \<and> status r = Completed) (calculation_runs db) = None"
    if "\<forall>r \<in> set (calculation_runs db). run_id r = rid \<longrightarrow> status r \<noteq> Completed"
    using that by (auto simp: find_None_iff)
  moreover have "objects_get db rid = None"
    if "\<forall>r \<in> set (calculation_runs db). run_id r \<noteq> rid"
    using that by (auto simp: objects_get_def find_None_iff)
  ultimately show ?thesis
    by (auto simp: get_calculation_data_run_def get_dashboard_context_run_def)
qed

theorem explicit_run_id_resolution_witness:
  "map (\<lambda>r. (run_id r, status r)) (calculation_runs db_abc) =
     [(''a'', Completed), (''b'', Updated), (''c'', Failed)] \<and>
   get_calculation_data_run ''m'' fs_ac db_abc svc1 (Some ''c'') =
     get_current_run ''m'' fs_ac db_abc svc1 \<and>
   get_calculation_data_run ''m'' fs_ac db_abc svc1 (Some ''c'') =
     get_calculation_data_run ''m'' fs_ac db_abc svc1 None \<and>
   get_dashboard_context_run ''m'' fs_ac db_abc req1 (Some ''zz'') = None \<and>
   objects_get db_abc ''c'' = Some run_c \<and>
   get_dashboard_context_run ''m'' fs_ac db_abc req1 (Some ''c'') = Some run_c"
proof -
  have 0: "map (\<lambda>r. (run_id r, status r)) (calculation_runs db_abc) =
     [(''a'', Completed), (''b'', Updated), (''c'', Failed)]"
    by (simp add: db_abc_def run_a_def run_b_def run_c_def)
  have 1: "\<forall>r \<in> set (calculation_runs db_abc). run_id r = ''c'' \<longrightarrow> status r \<noteq> Completed"
    by (simp add: db_abc_def run_a_def run_b_def run_c_def)
  have 2: "\<forall>r \<in> set (calculation_runs db_abc). run_id r \<noteq> ''zz''"
    by (simp add: db_abc_def run_a_def run_b_def run_c_def)
  have ne: "''c'' \<noteq> []" "''zz'' \<noteq> []"
    by simp_all
  have 3: "get_calculation_data_run ''m'' fs_ac db_abc svc1 (Some ''c'') =
             get_current_run ''m'' fs_ac db_abc svc1 \<and>
           get_calculation_data_run ''m'' fs_ac db_abc svc1 (Some ''c'') =
             get_calculation_data_run ''m'' fs_ac db_abc svc1 None"
    using 1 ne explicit_run_id_resolution [of "''c''" db_abc "''m''" fs_ac svc1 req1 run_c]
    by blast
  have 4: "get_dashboard_context_run ''m'' fs_ac db_abc req1 (Some ''c'') = Some run_c"
    using objects_get_abc(2) ne
      explicit_run_id_resolution [of "''c''" db_abc "''m''" fs_ac svc1 req1 run_c]
    by blast
  have 5: "get_dashboard_context_run ''m'' fs_ac db_abc req1 (Some ''zz'') = None"
    using 2 ne explicit_run_id_resolution [of "''zz''" db_abc "''m''" fs_ac svc1 req1 run_c]
    by blast
  show ?thesis
    by (intro conjI) (rule 0 3 [THEN conjunct1] 3 [THEN conjunct2] 4 5 objects_get_abc(2))+
qed

text \<open>
  C3, as stated, fails on \<^verbatim>\<open>get_preferred_run\<close>: the stored preference of the user points
  at the failed run \<open>run_c\<close>, whose files exist, and that run is used although the most
  recent acceptable run is \<open>run_b\<close>.
\<close>

theorem get_preferred_run_ignores_status:
  "user_preferences db_pref_c (get_user_identifier req1) = Some (Some (run_id run_c)) \<and>
   status run_c = Failed \<and>
   get_preferred_run ''m'' fs_ac db_pref_c req1 = Some run_c \<and>
   get_latest_run db_pref_c = Some run_b"
proof -
  have 1: "user_preferences db_pref_c (get_user_identifier req1) = Some (Some ''c'')"
    by (simp add: user_identifier_req1 db_pref_c_def)
  have 2: "objects_get db_pref_c ''c'' = Some run_c"
    using objects_get_abc(2) by (simp add: objects_get_def db_pref_c_def)
  have 3: "get_latest_run db_pref_c = Some run_b"
    using latest_run_abc by (simp add: get_latest_run_def db_pref_c_def)
  have 4: "run_id run_c = ''c''" "status run_c = Failed"
    by (simp_all add: run_c_def)
  show ?thesis
    using available_c by (simp add: get_preferred_run_def deref_run_def 1 2 3 4)
qed

text \<open>
  C3, amended. With no explicit run id, \<^verbatim>\<open>get_preferred_run\<close> of \<^verbatim>\<open>data_access.py\<close> uses the
  user's stored preferred run when its data is available, whatever its status; when
  its data is not available, or no preference is stored, it returns the most recent
  non-archived run with status completed or updated. \<^verbatim>\<open>get_current_run\<close> of
  \<^verbatim>\<open>data_access_service.py\<close> skips a stored preferred run whose status is not completed:
  it does what it does with no preference stored.
\<close>

theorem stored_preference_use:
  "(user_preferences db (get_user_identifier req) = Some (Some rid) \<and>
      objects_get db rid = Some p \<and> is_data_available mr fs p \<longrightarrow>
        get_preferred_run mr fs db req = Some p) \<and>
   (user_preferences db (get_user_identifier req) = Some (Some rid) \<and>
      objects_get db rid = Some p \<and> \<not> is_data_available mr fs p \<longrightarrow>
        get_preferred_run mr fs db req = get_latest_run db) \<and>
   (user_preferences db (get_user_identifier req) = None \<longrightarrow>
        get_preferred_run mr fs db req = get_latest_run db) \<and>
   (get_user_preferred_run db svc = Some p \<and> status p \<noteq> Completed \<longrightarrow>
        get_current_run mr fs db svc =
        get_current_run mr fs
          (db\<lparr>user_preferences := (user_preferences db)(user_ip svc := None)\<rparr>) svc)"
  by (auto simp: get_preferred_run_def deref_run_def get_current_run_def Let_def
      get_user_preferred_run_def get_latest_completed_run_def objects_get_def
      split: option.splits)


theorem stored_preference_use_witness:
  "user_preferences db_pref_c (get_user_identifier req1) = Some (Some ''c'') \<and>
   objects_get db_pref_c ''c'' = Some run_c \<and> is_data_available ''m'' fs_ac run_c \<and>
   status run_c = Failed \<and>
   get_preferred_run ''m'' fs_ac db_pref_c req1 = Some run_c \<and>
   user_preferences db_pref_b (get_user_identifier req1) = Some (Some ''b'') \<and>
   objects_get db_pref_b ''b'' = Some run_b \<and> \<not> is_data_available ''m'' fs_ac run_b \<and>
   get_preferred_run ''m'' fs_ac db_pref_b req1 = get_latest_run db_pref_b \<and>
   user_preferences db_abc (get_user_identifier req1) = None \<and>
   get_preferred_run ''m'' fs_ac db_abc req1 = get_latest_run db_abc \<and>
   get_user_preferred_run db_pref_c svc1 = Some run_c \<and> status run_c \<noteq> Completed \<and>
   get_current_run ''m'' fs_ac db_pref_c svc1 =
     get_current_run ''m'' fs_ac
       (db_pref_c\<lparr>user_preferences := (user_preferences db_pref_c)(user_ip svc1 := None)\<rparr>) svc1"
proof -
  have 1: "user_preferences db_pref_c (get_user_identifier req1) = Some (Some ''c'')"
    "user_preferences db_pref_b (get_user_identifier req1) = Some (Some ''b'')"
    "user_preferences db_abc (get_user_identifier req1) = None"
    by (simp_all add: user_identifier_req1 db_pref_c_def db_pref_b_def db_abc_def)
  have 2: "objects_get db_pref_c ''c'' = Some run_c" "objects_get db_pref_b ''b'' = Some run_b"
    by (simp_all add: objects_get_def db_pref_c_def db_pref_b_def db_abc_def
        run_a_def run_b_def run_c_def)
  have 3: "status run_c = Failed" "status run_c \<noteq> Completed"
    by (simp_all add: run_c_def)
  have 4: "get_user_preferred_run db_pref_c svc1 = Some run_c"
    using 2(1) by (simp add: get_user_preferred_run_def deref_run_def db_pref_c_def svc1_def)
  show ?thesis
    using 1 2 3 4 available_c not_available_b
      stored_preference_use [of db_pref_c req1 "''c''" run_c "''m''" fs_ac svc1]
      stored_preference_use [of db_pref_b req1 "''b''" run_b "''m''" fs_ac svc1]
      stored_preference_use [of db_abc req1 "''b''" run_b "''m''" fs_ac svc1]
    by simp
qed

text \<open>
  C4. Run resolution returns a run or none and never raises for a missing run or a missing
  preference. \<^verbatim>\<open>get_current_run\<close> breaks this: with the completed run \<open>run_a\<close> in the
  table and no preference stored for the user it raises \<^verbatim>\<open>TypeError\<close>, because it calls
  the value of the property \<^verbatim>\<open>is_data_available\<close>.
\<close>

theorem get_current_run_raises_type_error:
  "user_preferences db_abc (user_ip svc1) = None \<and>
   get_latest_completed_run db_abc = Some run_a \<and>
   is_data_available ''m'' fs_ac run_a \<and>
   get_current_run ''m'' fs_ac db_abc svc1 = Inl (TypeError ''bool object is not callable'') \<and>
   get_calculation_data_run ''m'' fs_ac db_abc svc1 None =
     Inl (TypeError ''bool object is not callable'')"
proof -
  have 1: "user_preferences db_abc (user_ip svc1) = None"
    by (simp add: db_abc_def)
  have 2: "get_latest_completed_run db_abc = Some run_a"
    by (simp add: get_latest_completed_run_def first_def order_by_created_desc_def
        db_abc_def run_a_def run_b_def run_c_def)
  show ?thesis
    using available_a
    by (simp add: 1 2 get_current_run_def get_user_preferred_run_def call_bool_def
        get_calculation_data_run_def)
qed

text \<open>
  C9. For every user and every run that exists, is completed and has its data available:
  after \<^verbatim>\<open>set_preferred_run\<close> for that user and run, which succeeds, resolving the run for
  the user with no explicit run id (\<^verbatim>\<open>get_preferred_run\<close>, and so
  \<^verbatim>\<open>get_dashboard_context\<close> without a run id) returns that run.
\<close>

theorem set_then_get_preferred_run:
  assumes "objects_get db rid = Some r"
      and "status r = Completed"
      and "is_data_available mr fs r"
  shows "fst (set_preferred_run db req rid) = True \<and>
         get_preferred_run mr fs (snd (set_preferred_run db req rid)) req = Some r \<and>
         get_dashboard_context_run mr fs (snd (set_preferred_run db req rid)) req None = Some r"
proof -
  from assms(1) have "run_id r = rid"
    by (auto simp: objects_get_def find_Some_iff)
  with assms(1,3) show ?thesis
    by (simp add: set_preferred_run_def get_preferred_run_def get_dashboard_context_run_def
        deref_run_def objects_get_def Let_def)
qed

theorem set_then_get_preferred_run_witness:
  "objects_get db_abc ''a'' = Some run_a \<and> status run_a = Completed \<and>
   is_data_available ''m'' fs_ac run_a \<and>
   fst (set_preferred_run db_abc req1 ''a'') = True \<and>
   get_preferred_run ''m'' fs_ac (snd (set_preferred_run db_abc req1 ''a'')) req1 = Some run_a \<and>
   get_dashboard_context_run ''m'' fs_ac (snd (set_preferred_run db_abc req1 ''a'')) req1 None
     = Some run_a"
proof -
  have s: "status run_a = Completed"
    by (simp add: run_a_def)
  show ?thesis
    using objects_get_abc(1) s available_a
      set_then_get_preferred_run [OF objects_get_abc(1) s available_a, of req1]
    by simp
qed


section \<open>Aggregation\<close>

lemma project_total_cost_eq_spec:
  "project_total_cost slice h ah ac b = spec_total_realized_cost slice h ah ac b"
proof (cases "rows slice = []")
  case True
  then show ?thesis
    by (simp add: project_total_cost_def spec_total_realized_cost_def nansum_def Let_def)
next
  case False
  then show ?thesis
    by (simp add: project_total_cost_def spec_total_realized_cost_def Let_def)
qed

lemma bind_err_Inr_iff:
  "bind_err m f = Inr y \<longleftrightarrow> (\<exists>x. m = Inr x \<and> f x = Inr y)"
  by (cases m) (simp_all add: bind_err_def)

lemma mapM_err_Inr:
  "mapM_err f xs = Inr ys \<Longrightarrow> list_all2 (\<lambda>x y. f x = Inr y) xs ys"
proof (induction xs arbitrary: ys)
  case Nil
  then show ?case by simp
next
  case (Cons x xs)
  then show ?case
    by (auto simp: bind_err_Inr_iff)
qed

lemma find_filter_hd:
  "filter P xs = y # ys \<Longrightarrow> find P xs = Some y"
  by (induction xs) (auto split: if_splits)

lemma project_step_Inr:
  assumes "project_step result_df employee_summary_df adjusted_df name = Inr ((n, pd), t)"
  shows "n = name \<and> Libelle_projet t = name \<and>
         (\<exists>row. find (\<lambda>r. str r ''Libelle projet'' = name) (rows result_df) = Some row \<and>
            kp_totalBudgetEstime (kpis pd) = safe_float (row_get_num result_df row ''Estimees'' 0) \<and>
            kp_totalAdjustedCost (kpis pd) = safe_float (row_get_num result_df row ''Adjusted Cost'' 0) \<and>
            kp_totalEcart (kpis pd) = safe_float (row_get_num result_df row ''Ecart'' 0) \<and>
            kp_heuresReelles (kpis pd) = safe_float (row_get_num result_df row ''Total Heures'' 0) \<and>
            kp_heuresAjustees (kpis pd) = safe_float (row_get_num result_df row ''Adjusted Hours'' 0) \<and>
            kp_heuresRetirees (kpis pd) = safe_float (row_get_num result_df row heures_retirees_col 0)) \<and>
         Estimees t = kp_totalBudgetEstime (kpis pd) \<and>
         Adjusted_Cost t = kp_totalAdjustedCost (kpis pd) \<and>
         Ecart t = kp_totalEcart (kpis pd) \<and>
         Total_Heures t = kp_heuresReelles (kpis pd) \<and>
         Adjusted_Hours t = kp_heuresAjustees (kpis pd) \<and>
         Heures_Retirees t = kp_heuresRetirees (kpis pd) \<and>
         Total t = project_total_cost
                     (employee_summary_df\<lparr>rows := filter (\<lambda>r. str r ''Libelle projet'' = name)
                                                       (rows employee_summary_df)\<rparr>)
                     (Total_Heures t) (Adjusted_Hours t) (Adjusted_Cost t) (Estimees t)"
proof -
  let ?c = "''Libelle projet''"
  from assms obtain matching row slice noms employees where
    m: "select_eq result_df ?c name = Inr matching" and
    i: "iloc0 matching = Inr row" and
    s: "select_eq employee_summary_df ?c name = Inr slice" and
    e: "Inr ((n, pd), t) =
        (Inr ((name,
               \<lparr>kpis = \<lparr>kp_nbEmployes = nunique noms,
                  kp_totalBudgetEstime = safe_float (row_get_num result_df row ''Estimees'' 0),
                  kp_totalAdjustedCost = safe_float (row_get_num result_df row ''Adjusted Cost'' 0),
                  kp_totalEcart = safe_float (row_get_num result_df row ''Ecart'' 0),
                  kp_pctAjustement =
                    (if safe_float (row_get_num result_df row ''Estimees'' 0) \<noteq> 0
                     then (safe_float (row_get_num result_df row ''Ecart'' 0) /
                           safe_float (row_get_num result_df row ''Estimees'' 0)) * 100
                     else 0),
                  kp_heuresReelles = safe_float (row_get_num result_df row ''Total Heures'' 0),
                  kp_heuresAjustees = safe_float (row_get_num result_df row ''Adjusted Hours'' 0),
                  kp_heuresRetirees = safe_float (row_get_num result_df row heures_retirees_col 0)\<rparr>,
                employee_data = employees\<rparr>),
               \<lparr>Libelle_projet = name,
                Total_Heures = safe_float (row_get_num result_df row ''Total Heures'' 0),
                Adjusted_Hours = safe_float (row_get_num result_df row ''Adjusted Hours'' 0),
                Adjusted_Cost = safe_float (row_get_num result_df row ''Adjusted Cost'' 0),
                Heures_Retirees = safe_float (row_get_num result_df row heures_retirees_col 0),
                Estimees = safe_float (row_get_num result_df row ''Estimees'' 0),
                Ecart = safe_float (row_get_num result_df row ''Ecart'' 0),
                Total = project_total_cost slice
                          (safe_float (row_get_num result_df row ''Total Heures'' 0))
                          (safe_float (row_get_num result_df row ''Adjusted Hours'' 0))
                          (safe_float (row_get_num result_df row ''Adjusted Cost'' 0))
                          (safe_float (row_get_num result_df row ''Estimees'' 0))\<rparr>)
           :: py_error + ((string \<times> project_data) \<times> table_projet))"
    unfolding project_step_def Let_def bind_err_Inr_iff by metis
  from m have mm: "rows matching = filter (\<lambda>r. str r ?c = name) (rows result_df)"
    by (auto simp: select_eq_def split: if_splits)
  from i mm have f: "find (\<lambda>r. str r ?c = name) (rows result_df) = Some row"
    by (auto simp: iloc0_def split: list.splits dest: find_filter_hd)
  from s have ss: "slice = employee_summary_df\<lparr>rows := filter (\<lambda>r. str r ?c = name)
                                                       (rows employee_summary_df)\<rparr>"
    by (auto simp: select_eq_def split: if_splits)
  from e have n: "n = name" by simp
  from e have pd: "kpis pd = \<lparr>kp_nbEmployes = nunique noms,
                  kp_totalBudgetEstime = safe_float (row_get_num result_df row ''Estimees'' 0),
                  kp_totalAdjustedCost = safe_float (row_get_num result_df row ''Adjusted Cost'' 0),
                  kp_totalEcart = safe_float (row_get_num result_df row ''Ecart'' 0),
                  kp_pctAjustement =
                    (if safe_float (row_get_num result_df row ''Estimees'' 0) \<noteq> 0
                     then (safe_float (row_get_num result_df row ''Ecart'' 0) /
                           safe_float (row_get_num result_df row ''Estimees'' 0)) * 100
                     else 0),
                  kp_heuresReelles = safe_float (row_get_num result_df row ''Total Heures'' 0),
                  kp_heuresAjustees = safe_float (row_get_num result_df row ''Adjusted Hours'' 0),
                  kp_heuresRetirees = safe_float (row_get_num result_df row heures_retirees_col 0)\<rparr>"
    by simp
  from e have t: "t = \<lparr>Libelle_projet = name,
                Total_Heures = safe_float (row_get_num result_df row ''Total Heures'' 0),
                Adjusted_Hours = safe_float (row_get_num result_df row ''Adjusted Hours'' 0),
                Adjusted_Cost = safe_float (row_get_num result_df row ''Adjusted Cost'' 0),
                Heures_Retirees = safe_float (row_get_num result_df row heures_retirees_col 0),
                Estimees = safe_float (row_get_num result_df row ''Estimees'' 0),
                Ecart = safe_float (row_get_num result_df row ''Ecart'' 0),
                Total = project_total_cost slice
                          (safe_float (row_get_num result_df row ''Total Heures'' 0))
                          (safe_float (row_get_num result_df row ''Adjusted Hours'' 0))
                          (safe_float (row_get_num result_df row ''Adjusted Cost'' 0))
                          (safe_float (row_get_num result_df row ''Estimees'' 0))\<rparr>"
    by simp
  show ?thesis
    unfolding n t pd using f ss by simp
qed


lemma aggregate_Inr:
  assumes "aggregate debug mr fs run result_df employee_summary_df adjusted_df = Inr d"
  shows "d_projects_list d = sort (remdups (map (\<lambda>r. str r ''Libelle projet'') (rows result_df)))"
    and "\<exists>steps. mapM_err (project_step result_df employee_summary_df adjusted_df)
                    (d_projects_list d) = Inr steps \<and>
                  d_projects_data d = map fst steps \<and> d_table_projets d = map snd steps"
    and "totalBudgetEstime (d_overall_kpis d) = nansum (map (\<lambda>r. num r ''Estimees'') (rows result_df))"
    and "totalAdjustedCost (d_overall_kpis d) =
           nansum (map (\<lambda>r. num r ''Adjusted Cost'') (rows result_df))"
    and "totalEcart (d_overall_kpis d) = nansum (map (\<lambda>r. num r ''Ecart'') (rows result_df))"
    and "{''Libelle projet'', ''Estimees'', ''Adjusted Cost'', ''Ecart''} \<subseteq> set (columns result_df)"
  using assms
  by (auto simp: aggregate_def bind_err_Inr_iff Let_def str_column_def num_column_def
      split: if_splits)

lemma list_all2_map_eq:
  "list_all2 (\<lambda>x y. f y = x) xs ys \<Longrightarrow> map f ys = xs"
  by (induction rule: list_all2_induct) simp_all

lemma list_all2_in_set2:
  "list_all2 P xs ys \<Longrightarrow> y \<in> set ys \<Longrightarrow> \<exists>x \<in> set xs. P x y"
  by (induction rule: list_all2_induct) auto

lemma load_dashboard_data_Available:
  assumes "load_dashboard_data debug mr fs (Some run) = Available d"
      and "load_frames mr fs run = Inr (result_df, employee_summary_df, adjusted_df)"
  shows "aggregate debug mr fs run result_df employee_summary_df adjusted_df = Inr d"
  using assms
  by (auto simp: load_dashboard_data_def load_dashboard_data_try_def bind_err_def
      split: if_splits sum.splits)


lemma load_frames_a:
  "load_frames ''m'' fs_ac run_a = Inr (result_df1, employee_df1, adjusted_df1)"
  by (simp add: load_frames_def get_latest_parquet_def data_path_def path_join_def
      path_exists_def read_parquet_def bind_err_def fs_ac_def run_a_def)

lemma has_updates_a: "\<not> has_updates ''m'' fs_ac run_a"
  by (simp add: has_updates_def data_path_def path_join_def path_exists_def
      fs_ac_def run_a_def)

lemma step_alpha:
  "project_step result_df1 employee_df1 adjusted_df1 ''Alpha'' =
     Inr (d_projects_data dash_a ! 0, d_table_projets dash_a ! 0)"
  by (simp add: project_step_def select_eq_def iloc0_def bind_err_def str_column_def
      nunique_def safe_float_def row_get_num_def row_get_str_def get_project_employees_def
      project_total_cost_def nansum_def fillna0_def heures_retirees_col_def
      result_df1_def employee_df1_def adjusted_df1_def mk_row_def dash_a_def Let_def)

lemma step_beta:
  "project_step result_df1 employee_df1 adjusted_df1 ''Beta'' =
     Inr (d_projects_data dash_a ! 1, d_table_projets dash_a ! 1)"
  by (simp add: project_step_def select_eq_def iloc0_def bind_err_def str_column_def
      nunique_def safe_float_def row_get_num_def row_get_str_def get_project_employees_def
      project_total_cost_def nansum_def fillna0_def heures_retirees_col_def
      result_df1_def employee_df1_def adjusted_df1_def mk_row_def dash_a_def Let_def)

lemma labels1: "str_column result_df1 ''Libelle projet'' = Inr [''Alpha'', ''Beta'', ''Alpha'']"
  by (simp add: str_column_def result_df1_def mk_row_def)

lemma aggregate_a:
  "aggregate False ''m'' fs_ac run_a result_df1 employee_df1 adjusted_df1 = Inr dash_a"
proof -
  have 1: "str_column employee_df1 ''Nom'' = Inr [''Ann'', ''Bob'', ''Ann'']"
    by (simp add: str_column_def employee_df1_def mk_row_def)
  have 2: "num_column result_df1 ''Estimees'' = Inr [Some 1000, Some 2000, Some 500]"
    by (simp add: num_column_def result_df1_def mk_row_def)
  have 3: "num_column result_df1 ''Adjusted Cost'' = Inr [Some 1100, Some 1800, Some 400]"
    by (simp add: num_column_def result_df1_def mk_row_def)
  have 4: "num_column result_df1 ''Ecart'' = Inr [Some 100, Some (-200), Some (-100)]"
    by (simp add: num_column_def result_df1_def mk_row_def)
  have 5: "run_id run_a = ''a''" "period_string run_a = ''Janvier 2024''" "created_at run_a = 100"
    "status run_a = Completed"
    by (simp_all add: run_a_def)
  show ?thesis
    unfolding aggregate_def labels1 1 2 3 4
    by (simp add: bind_err_def Let_def step_alpha step_beta nunique_def nansum_def fillna0_def
        has_updates_a 5) (simp add: dash_a_def)
qed

lemma load_a: "load_dashboard_data False ''m'' fs_ac (Some run_a) = Available dash_a"
  by (simp add: load_dashboard_data_def load_dashboard_data_try_def available_a load_frames_a
      aggregate_a bind_err_def)

text \<open>
  C1. For every project of an aggregation (the table has one entry per project of the
  project list), the total realized cost is the value of the four-step fallback chain
  \<open>spec_total_realized_cost\<close> on the project's slice of the employee summary and the
  project's realized hours, adjusted hours, adjusted cost and estimated budget.
\<close>

theorem total_realized_cost_fallback_chain:
  assumes "load_dashboard_data debug mr fs (Some run) = Available d"
      and "load_frames mr fs run = Inr (result_df, employee_summary_df, adjusted_df)"
  shows "map Libelle_projet (d_table_projets d) = d_projects_list d \<and>
         (\<forall>t \<in> set (d_table_projets d).
            Total t =
              spec_total_realized_cost
                (employee_summary_df\<lparr>rows := filter (\<lambda>r. str r ''Libelle projet'' = Libelle_projet t)
                                                  (rows employee_summary_df)\<rparr>)
                (Total_Heures t) (Adjusted_Hours t) (Adjusted_Cost t) (Estimees t))"
proof -
  have agg: "aggregate debug mr fs run result_df employee_summary_df adjusted_df = Inr d"
    using assms by (rule load_dashboard_data_Available)
  from aggregate_Inr(2) [OF agg] obtain steps where
    st: "mapM_err (project_step result_df employee_summary_df adjusted_df) (d_projects_list d)
           = Inr steps"
    and tp: "d_table_projets d = map snd steps"
    by blast
  let ?P = "\<lambda>x y. project_step result_df employee_summary_df adjusted_df x = Inr y"
  have all2: "list_all2 ?P (d_projects_list d) steps"
    using st by (rule mapM_err_Inr)
  have "list_all2 (\<lambda>x y. (Libelle_projet \<circ> snd) y = x) (d_projects_list d) steps"
    using all2
  proof (rule list_all2_mono)
    fix x y assume "?P x y"
    then show "(Libelle_projet \<circ> snd) y = x"
      using project_step_Inr [of result_df employee_summary_df adjusted_df x "fst (fst y)" "snd (fst y)" "snd y"]
      by simp
  qed
  then have names: "map Libelle_projet (d_table_projets d) = d_projects_list d"
    unfolding tp using list_all2_map_eq [of "Libelle_projet \<circ> snd"] by simp
  have "Total t =
          spec_total_realized_cost
            (employee_summary_df\<lparr>rows := filter (\<lambda>r. str r ''Libelle projet'' = Libelle_projet t)
                                              (rows employee_summary_df)\<rparr>)
            (Total_Heures t) (Adjusted_Hours t) (Adjusted_Cost t) (Estimees t)"
    if "t \<in> set (d_table_projets d)" for t
  proof -
    from that tp obtain y where y: "y \<in> set steps" and ty: "t = snd y" by auto
    from list_all2_in_set2 [OF all2 y] obtain x where "?P x y" by blast
    then show ?thesis
      using project_step_Inr [of result_df employee_summary_df adjusted_df x "fst (fst y)" "snd (fst y)" "snd y"]
      by (simp add: ty project_total_cost_eq_spec)
  qed
  with names show ?thesis by blast
qed

theorem total_realized_cost_fallback_chain_witness:
  "load_dashboard_data False ''m'' fs_ac (Some run_a) = Available dash_a \<and>
   load_frames ''m'' fs_ac run_a = Inr (result_df1, employee_df1, adjusted_df1) \<and>
   map Libelle_projet (d_table_projets dash_a) = [''Alpha'', ''Beta''] \<and>
   map Total (d_table_projets dash_a) = [500, 1600] \<and>
   spec_total_realized_cost
     (employee_df1\<lparr>rows := filter (\<lambda>r. str r ''Libelle projet'' = ''Alpha'')
                                (rows employee_df1)\<rparr>) 10 8 1100 1000 = 500 \<and>
   spec_total_realized_cost
     (employee_df1\<lparr>rows := filter (\<lambda>r. str r ''Libelle projet'' = ''Beta'')
                                (rows employee_df1)\<rparr>) 0 0 1800 2000 = 1600"
proof -
  have "map Libelle_projet (d_table_projets dash_a) = [''Alpha'', ''Beta'']"
    "map Total (d_table_projets dash_a) = [500, 1600]"
    by (simp_all add: dash_a_def)
  moreover have "spec_total_realized_cost
     (employee_df1\<lparr>rows := filter (\<lambda>r. str r ''Libelle projet'' = ''Alpha'')
                                (rows employee_df1)\<rparr>) 10 8 1100 1000 = 500"
    "spec_total_realized_cost
     (employee_df1\<lparr>rows := filter (\<lambda>r. str r ''Libelle projet'' = ''Beta'')
                                (rows employee_df1)\<rparr>) 0 0 1800 2000 = 1600"
    using total_realized_cost_fallback_chain [OF load_a load_frames_a]
    by (simp_all add: dash_a_def)
  ultimately show ?thesis
    using load_a load_frames_a by simp
qed


lemma find_Some_filter:
  "find P xs = Some y \<Longrightarrow> filter P xs = y # tl (filter P xs)"
  by (induction xs) (auto split: if_splits)

lemma sum_list_delta0:
  fixes a :: real
  shows "x \<notin> set ns \<Longrightarrow> (\<Sum>n\<leftarrow>ns. if x = n then a else 0) = 0"
  by (induction ns) auto

lemma sum_list_delta:
  fixes a :: real
  shows "distinct ns \<Longrightarrow> x \<in> set ns \<Longrightarrow> (\<Sum>n\<leftarrow>ns. if x = n then a else 0) = a"
  by (induction ns) (auto simp: sum_list_delta0)

lemma sum_list_by_label:
  fixes g :: "'a \<Rightarrow> real"
  assumes "distinct ns" and "L ` set rs \<subseteq> set ns"
  shows "(\<Sum>n\<leftarrow>ns. \<Sum>r\<leftarrow>filter (\<lambda>r. L r = n) rs. g r) = (\<Sum>r\<leftarrow>rs. g r)"
  using assms(2)
proof (induction rs)
  case Nil
  then show ?case by simp
next
  case (Cons r rs)
  have "(\<Sum>n\<leftarrow>ns. \<Sum>x\<leftarrow>filter (\<lambda>x. L x = n) (r # rs). g x) =
        (\<Sum>n\<leftarrow>ns. (if L r = n then g r else 0) + (\<Sum>x\<leftarrow>filter (\<lambda>x. L x = n) rs. g x))"
    by (rule arg_cong [where f = sum_list]) auto
  also have "\<dots> = (\<Sum>n\<leftarrow>ns. if L r = n then g r else 0) +
                  (\<Sum>n\<leftarrow>ns. \<Sum>x\<leftarrow>filter (\<lambda>x. L x = n) rs. g x)"
    by (simp add: sum_list_addf)
  also have "\<dots> = g r + (\<Sum>x\<leftarrow>rs. g x)"
    using Cons assms(1) by (simp add: sum_list_delta)
  finally show ?case by simp
qed

text \<open>
  C10. Whatever rows the result table has, also with a project label in more than one
  row: the per-project KPIs (estimated budget, adjusted cost, variance, realized, adjusted
  and removed hours) of a label are those of the first row with that label, and the
  overall totals are sums over every row of the table. So the overall budget is the sum
  of the per-project budgets plus the budgets of the rows after the first of each label,
  and the two disagree by exactly those.
\<close>

theorem first_row_kpis_and_overall_totals:
  assumes "load_dashboard_data debug mr fs (Some run) = Available d"
      and "load_frames mr fs run = Inr (result_df, employee_summary_df, adjusted_df)"
  shows "map fst (d_projects_data d) = d_projects_list d \<and>
         d_projects_list d =
           sort (remdups (map (\<lambda>r. str r ''Libelle projet'') (rows result_df))) \<and>
         (\<forall>(name, pd) \<in> set (d_projects_data d).
            \<exists>row. find (\<lambda>r. str r ''Libelle projet'' = name) (rows result_df) = Some row \<and>
              kp_totalBudgetEstime (kpis pd) = safe_float (num row ''Estimees'') \<and>
              kp_totalAdjustedCost (kpis pd) = safe_float (num row ''Adjusted Cost'') \<and>
              kp_totalEcart (kpis pd) = safe_float (num row ''Ecart'') \<and>
              kp_heuresReelles (kpis pd) =
                safe_float (row_get_num result_df row ''Total Heures'' 0) \<and>
              kp_heuresAjustees (kpis pd) =
                safe_float (row_get_num result_df row ''Adjusted Hours'' 0) \<and>
              kp_heuresRetirees (kpis pd) =
                safe_float (row_get_num result_df row heures_retirees_col 0)) \<and>
         totalBudgetEstime (d_overall_kpis d) =
           (\<Sum>r\<leftarrow>rows result_df. safe_float (num r ''Estimees'')) \<and>
         totalAdjustedCost (d_overall_kpis d) =
           (\<Sum>r\<leftarrow>rows result_df. safe_float (num r ''Adjusted Cost'')) \<and>
         totalEcart (d_overall_kpis d) =
           (\<Sum>r\<leftarrow>rows result_df. safe_float (num r ''Ecart'')) \<and>
         totalBudgetEstime (d_overall_kpis d) =
           (\<Sum>(name, pd)\<leftarrow>d_projects_data d.
              kp_totalBudgetEstime (kpis pd) +
              (\<Sum>r\<leftarrow>tl (filter (\<lambda>r. str r ''Libelle projet'' = name) (rows result_df)).
                 safe_float (num r ''Estimees'')))"
proof -
  let ?L = "\<lambda>r. str r ''Libelle projet''"
  let ?g = "\<lambda>r. safe_float (num r ''Estimees'')"
  let ?K = "\<lambda>name pd row.
              find (\<lambda>r. ?L r = name) (rows result_df) = Some row \<and>
              kp_totalBudgetEstime (kpis pd) = safe_float (num row ''Estimees'') \<and>
              kp_totalAdjustedCost (kpis pd) = safe_float (num row ''Adjusted Cost'') \<and>
              kp_totalEcart (kpis pd) = safe_float (num row ''Ecart'') \<and>
              kp_heuresReelles (kpis pd) =
                safe_float (row_get_num result_df row ''Total Heures'' 0) \<and>
              kp_heuresAjustees (kpis pd) =
                safe_float (row_get_num result_df row ''Adjusted Hours'' 0) \<and>
              kp_heuresRetirees (kpis pd) =
                safe_float (row_get_num result_df row heures_retirees_col 0)"
  let ?h = "\<lambda>(name, pd). kp_totalBudgetEstime (kpis pd) +
                     (\<Sum>r\<leftarrow>tl (filter (\<lambda>r. ?L r = name) (rows result_df)). ?g r)"
  have agg: "aggregate debug mr fs run result_df employee_summary_df adjusted_df = Inr d"
    using assms by (rule load_dashboard_data_Available)
  note A = aggregate_Inr [OF agg]
  from A(2) obtain steps where
    st: "mapM_err (project_step result_df employee_summary_df adjusted_df) (d_projects_list d)
           = Inr steps"
    and pdata: "d_projects_data d = map fst steps"
    by blast
  let ?P = "\<lambda>x y. project_step result_df employee_summary_df adjusted_df x = Inr y"
  have all2: "list_all2 ?P (d_projects_list d) steps"
    using st by (rule mapM_err_Inr)
  have cols: "''Estimees'' \<in> set (columns result_df)"
    "''Adjusted Cost'' \<in> set (columns result_df)"
    "''Ecart'' \<in> set (columns result_df)"
    using A(6) by simp_all
  have step: "\<exists>row. ?K x pd row" "n = x" if "?P x ((n, pd), t)" for x n pd t
    using project_step_Inr [OF that] by (simp_all add: row_get_num_def cols)
  have "list_all2 (\<lambda>x y. (fst \<circ> fst) y = x) (d_projects_list d) steps"
    using all2
  proof (rule list_all2_mono)
    fix x y assume p: "?P x y"
    obtain n pd t where y: "y = ((n, pd), t)"
      by (metis prod.collapse)
    from step(2) [OF p [unfolded y]] show "(fst \<circ> fst) y = x"
      by (simp add: y)
  qed
  then have names: "map fst (d_projects_data d) = d_projects_list d"
    unfolding pdata using list_all2_map_eq [of "fst \<circ> fst"] by simp
  have first: "\<forall>(name, pd) \<in> set (d_projects_data d). \<exists>row. ?K name pd row"
  proof (intro ballI)
    fix e assume "e \<in> set (d_projects_data d)"
    with pdata obtain y where y: "y \<in> set steps" and ey: "e = fst y" by auto
    obtain n pd t where yy: "y = ((n, pd), t)"
      by (metis prod.collapse)
    from list_all2_in_set2 [OF all2 y] obtain x where p: "?P x ((n, pd), t)"
      unfolding yy by blast
    from step [OF p] have "\<exists>row. ?K n pd row" by simp
    then show "case e of (name, pd) \<Rightarrow> \<exists>row. ?K name pd row"
      by (simp add: ey yy)
  qed
  have tot: "totalBudgetEstime (d_overall_kpis d) = (\<Sum>r\<leftarrow>rows result_df. ?g r)"
    "totalAdjustedCost (d_overall_kpis d) =
       (\<Sum>r\<leftarrow>rows result_df. safe_float (num r ''Adjusted Cost''))"
    "totalEcart (d_overall_kpis d) = (\<Sum>r\<leftarrow>rows result_df. safe_float (num r ''Ecart''))"
    using A(3,4,5) by (simp_all add: nansum_def fillna0_def safe_float_def comp_def)
  have "list_all2
          (\<lambda>x y. (?h \<circ> fst) y = (\<Sum>r\<leftarrow>filter (\<lambda>r. ?L r = x) (rows result_df). ?g r))
          (d_projects_list d) steps"
    using all2
  proof (rule list_all2_mono)
    fix x y assume p: "?P x y"
    obtain n pd t where y: "y = ((n, pd), t)"
      by (metis prod.collapse)
    from step [OF p [unfolded y]] obtain row where
      x: "n = x" and
      f: "find (\<lambda>r. ?L r = x) (rows result_df) = Some row" and
      k: "kp_totalBudgetEstime (kpis pd) = ?g row"
      by blast
    have "(\<Sum>r\<leftarrow>filter (\<lambda>r. ?L r = x) (rows result_df). ?g r) =
          (\<Sum>r\<leftarrow>row # tl (filter (\<lambda>r. ?L r = x) (rows result_df)). ?g r)"
      using find_Some_filter [OF f] by simp
    then show "(?h \<circ> fst) y = (\<Sum>r\<leftarrow>filter (\<lambda>r. ?L r = x) (rows result_df). ?g r)"
      by (simp add: y x k)
  qed
  then have "map (?h \<circ> fst) steps =
             map (\<lambda>x. \<Sum>r\<leftarrow>filter (\<lambda>r. ?L r = x) (rows result_df). ?g r) (d_projects_list d)"
    by (induction rule: list_all2_induct) simp_all
  then have "sum_list (map ?h (d_projects_data d)) =
        (\<Sum>x\<leftarrow>d_projects_list d. \<Sum>r\<leftarrow>filter (\<lambda>r. ?L r = x) (rows result_df). ?g r)"
    unfolding pdata by (simp add: comp_def)
  also have "\<dots> = (\<Sum>r\<leftarrow>rows result_df. ?g r)"
    by (rule sum_list_by_label) (simp_all add: A(1))
  finally have ident: "totalBudgetEstime (d_overall_kpis d) = sum_list (map ?h (d_projects_data d))"
    using tot(1) by simp
  show ?thesis
    by (intro conjI) (rule names A(1) first tot ident)+
qed

theorem first_row_kpis_and_overall_totals_witness:
  "load_dashboard_data False ''m'' fs_ac (Some run_a) = Available dash_a \<and>
   load_frames ''m'' fs_ac run_a = Inr (result_df1, employee_df1, adjusted_df1) \<and>
   map (\<lambda>r. str r ''Libelle projet'') (rows result_df1) = [''Alpha'', ''Beta'', ''Alpha''] \<and>
   map (\<lambda>(name, pd). (name, kp_totalBudgetEstime (kpis pd))) (d_projects_data dash_a) =
     [(''Alpha'', 1000), (''Beta'', 2000)] \<and>
   totalBudgetEstime (d_overall_kpis dash_a) = 3500 \<and>
   (\<Sum>r\<leftarrow>rows result_df1. safe_float (num r ''Estimees'')) = 3500"
proof -
  note T = first_row_kpis_and_overall_totals [OF load_a load_frames_a]
  have 1: "map (\<lambda>(name, pd). (name, kp_totalBudgetEstime (kpis pd))) (d_projects_data dash_a) =
     [(''Alpha'', 1000), (''Beta'', 2000)]"
    "totalBudgetEstime (d_overall_kpis dash_a) = 3500"
    by (simp_all add: dash_a_def)
  have 2: "map (\<lambda>r. str r ''Libelle projet'') (rows result_df1) = [''Alpha'', ''Beta'', ''Alpha'']"
    by (simp add: result_df1_def mk_row_def)
  from T have 3: "totalBudgetEstime (d_overall_kpis dash_a) =
      (\<Sum>r\<leftarrow>rows result_df1. safe_float (num r ''Estimees''))"
    by (elim conjE)
  show ?thesis
    using load_a load_frames_a 1 2 3 by simp
qed

lemma load_frames_fails:
  assumes "read_parquet fs (get_latest_parquet mr fs run base) = Inl e"
      and "base \<in> {''result'', ''employee_summary'', ''adjusted''}"
  shows "\<exists>e'. load_frames mr fs run = Inl e'"
  using assms by (auto simp: load_frames_def bind_err_def split: sum.splits)

text \<open>
  C6. \<^verbatim>\<open>load_dashboard_data\<close> never raises: for no run, and for a run whose data is not
  available, it returns the unavailable result with the text \<^verbatim>\<open>No data available\<close>; when
  the read of a required table fails, and whenever anything in its \<^verbatim>\<open>try\<close> block raises,
  it returns the unavailable result with the text of the error; and every call returns a
  result tagged unavailable, with a non-empty reason, or available.
\<close>

theorem load_dashboard_data_never_raises:
  "load_dashboard_data debug mr fs None = Unavailable ''No data available'' \<and>
   (\<not> is_data_available mr fs run \<longrightarrow>
      load_dashboard_data debug mr fs (Some run) = Unavailable ''No data available'') \<and>
   (is_data_available mr fs run \<and> base \<in> {''result'', ''employee_summary'', ''adjusted''} \<and>
    read_parquet fs (get_latest_parquet mr fs run base) = Inl e \<longrightarrow>
      (\<exists>e'. load_dashboard_data debug mr fs (Some run) =
              Unavailable (''Error loading data: '' @ str_error e'))) \<and>
   (is_data_available mr fs run \<and> load_dashboard_data_try debug mr fs run = Inl e \<longrightarrow>
      load_dashboard_data debug mr fs (Some run) =
        Unavailable (''Error loading data: '' @ str_error e)) \<and>
   ((\<exists>reason. reason \<noteq> [] \<and> load_dashboard_data debug mr fs run_opt = Unavailable reason) \<or>
    (\<exists>d. load_dashboard_data debug mr fs run_opt = Available d))"
proof -
  have 3: "\<exists>e'. load_dashboard_data debug mr fs (Some run) =
              Unavailable (''Error loading data: '' @ str_error e')"
    if "is_data_available mr fs run"
      and "base \<in> {''result'', ''employee_summary'', ''adjusted''}"
      and "read_parquet fs (get_latest_parquet mr fs run base) = Inl e"
  proof -
    from load_frames_fails [OF that(3) that(2)] obtain e' where
      "load_frames mr fs run = Inl e'" by blast
    then have "load_dashboard_data_try debug mr fs run = Inl e'"
      by (simp add: load_dashboard_data_try_def bind_err_def)
    with that(1) show ?thesis
      by (auto simp: load_dashboard_data_def)
  qed
  have 5: "(\<exists>reason. reason \<noteq> [] \<and> load_dashboard_data debug mr fs run_opt = Unavailable reason) \<or>
    (\<exists>d. load_dashboard_data debug mr fs run_opt = Available d)"
    by (auto simp: load_dashboard_data_def split: option.splits sum.splits)
  show ?thesis
    using 3 5 by (simp add: load_dashboard_data_def)
qed

theorem load_dashboard_data_never_raises_witness:
  "load_dashboard_data False ''m'' fs_ac None = Unavailable ''No data available'' \<and>
   \<not> is_data_available ''m'' fs_ac run_b \<and>
   load_dashboard_data False ''m'' fs_ac (Some run_b) = Unavailable ''No data available'' \<and>
   is_data_available ''m'' fs_ac run_c \<and>
   read_parquet fs_ac (get_latest_parquet ''m'' fs_ac run_c ''result'') =
     Inl (OSError ''Could not open Parquet input source'') \<and>
   load_dashboard_data_try False ''m'' fs_ac run_c =
     Inl (OSError ''Could not open Parquet input source'') \<and>
   load_dashboard_data False ''m'' fs_ac (Some run_c) =
     Unavailable ''Error loading data: Could not open Parquet input source''"
proof -
  have 1: "read_parquet fs_ac (get_latest_parquet ''m'' fs_ac run_c ''result'') =
     Inl (OSError ''Could not open Parquet input source'')"
    by (simp add: read_parquet_def get_latest_parquet_def data_path_def path_join_def
        path_exists_def fs_ac_def run_a_def run_c_def)
  then have 2: "load_dashboard_data_try False ''m'' fs_ac run_c =
     Inl (OSError ''Could not open Parquet input source'')"
    by (simp add: load_dashboard_data_try_def load_frames_def bind_err_def)
  show ?thesis
    using 1 2 available_c not_available_b
      load_dashboard_data_never_raises [of False "''m''" fs_ac run_b "''result''"
        "OSError ''Could not open Parquet input source''" None]
      load_dashboard_data_never_raises [of False "''m''" fs_ac run_c "''result''"
        "OSError ''Could not open Parquet input source''" None]
    by simp
qed


section \<open>Result cache\<close>

lemma invalidate_cache_noop: "invalidate_cache svc cache = cache"
  by (simp add: invalidate_cache_def)

lemma run_a_fields:
  "run_id run_a = ''a''" "created_at run_a = 100" "updated_at run_a = 100"
  "status run_a = Completed"
  by (simp_all add: run_a_def)

lemma select_a:
  "get_calculation_data_run ''m'' fs db_abc svc1 (Some ''a'') = Inr (Some run_a)"
  by (simp add: get_calculation_data_run_def db_abc_def run_a_def)

lemma select_a_pref:
  "get_calculation_data_run ''m'' fs (fst (set_user_preferred_run db_abc c svc1 run_a)) svc1
     (Some ''a'') = Inr (Some run_a)"
  by (simp add: get_calculation_data_run_def set_user_preferred_run_def db_abc_def run_a_def)

lemma cache_prefix_svc1: "cache_prefix svc1 = ''calc_data_10.0.0.1_''"
  by (simp add: cache_prefix_def svc1_def)

lemma latest_a:
  "get_latest_parquet ''m'' fs_ac run_a ''result'' = Some ''m/a/result_initial.parquet''"
  "get_latest_parquet ''m'' fs_ac run_a ''employee_summary'' =
     Some ''m/a/employee_summary_initial.parquet''"
  "get_latest_parquet ''m'' fs_ac_updated run_a ''result'' = Some ''m/a/result_updated.parquet''"
  "get_latest_parquet ''m'' fs_ac_updated run_a ''employee_summary'' =
     Some ''m/a/employee_summary_initial.parquet''"
  by (simp_all add: get_latest_parquet_def data_path_def path_join_def path_exists_def
      fs_ac_def fs_ac_updated_def run_a_def)

lemma read_a:
  "read_parquet fs_ac (Some ''m/a/result_initial.parquet'') = Inr result_df1"
  "read_parquet fs_ac (Some ''m/a/employee_summary_initial.parquet'') = Inr employee_df1"
  "read_parquet fs_ac_updated (Some ''m/a/result_updated.parquet'') = Inr result_df2"
  "read_parquet fs_ac_updated (Some ''m/a/employee_summary_initial.parquet'') = Inr employee_df1"
  by (simp_all add: read_parquet_def fs_ac_def fs_ac_updated_def)

lemma summary_a:
  "load_summary_data ''m'' fs_ac run_a =
     Some \<lparr>ss_projects = 3, ss_employees = 2, ss_budget = 3500, ss_adjusted_cost = 3300,
           ss_variance = - 200\<rparr>"
  by (simp add: load_summary_data_def latest_a read_a bind_err_def str_column_def
      num_column_def nunique_def nansum_def fillna0_def result_df1_def employee_df1_def
      mk_row_def)

lemma summary_a_updated:
  "load_summary_data ''m'' fs_ac_updated run_a =
     Some \<lparr>ss_projects = 1, ss_employees = 2, ss_budget = 1000, ss_adjusted_cost = 1100,
           ss_variance = 100\<rparr>"
  by (simp add: load_summary_data_def latest_a read_a bind_err_def str_column_def
      num_column_def nunique_def nansum_def fillna0_def result_df2_def result_df1_def
      employee_df1_def mk_row_def)

lemma try_a:
  "get_calculation_data_try k ''m'' fs_ac run_a = Inr (calc_a k)"
  "get_calculation_data_try k ''m'' fs_ac_updated run_a = Inr (calc_a_updated k)"
  by (simp_all add: get_calculation_data_try_def latest_a read_a bind_err_def summary_a
      summary_a_updated run_a_fields calc_a_def calc_a_updated_def)

text \<open>
  C7. After the cache invalidation that accompanies setting a preference or completing a
  run, the next \<^verbatim>\<open>get_calculation_data\<close> for the user recomputes from the snapshot files.
  The code breaks this: \<^verbatim>\<open>_invalidate_cache\<close> does nothing. Here the data of \<open>run_a\<close> is
  computed and cached at time 0; the preference is set (or the run completed), which
  leaves the cache as it is; an updated result table is written; and the call at time 10
  returns the entry cached at time 0 (budget 3500), not what the files now give
  (budget 1000).
\<close>

theorem invalidation_leaves_cached_entry:
  "get_calculation_data k ''m'' fs_ac db_abc Map.empty 0 svc1 (Some ''a'') False =
     Inr (calc_a k, cache_a k) \<and>
   snd (set_user_preferred_run db_abc (cache_a k) svc1 run_a) = cache_a k \<and>
   snd (snd (complete_calculation_run ''m'' fs_ac_updated db_abc (cache_a k) svc1 ''a'')) =
     cache_a k \<and>
   get_calculation_data k ''m'' fs_ac_updated
       (fst (set_user_preferred_run db_abc (cache_a k) svc1 run_a))
       (snd (set_user_preferred_run db_abc (cache_a k) svc1 run_a)) 10 svc1 (Some ''a'') False =
     Inr (calc_a k, cache_a k) \<and>
   get_calculation_data_try k ''m'' fs_ac_updated run_a = Inr (calc_a_updated k) \<and>
   ss_budget (the (cd_summary_stats (calc_a k))) = 3500 \<and>
   ss_budget (the (cd_summary_stats (calc_a_updated k))) = 1000"
proof -
  have 1: "get_calculation_data k ''m'' fs_ac db_abc Map.empty 0 svc1 (Some ''a'') False =
     Inr (calc_a k, cache_a k)"
    by (simp add: get_calculation_data_def select_a bind_err_def cache_prefix_svc1 run_a_fields
        cache_get_def try_a cache_set_def cache_a_def)
  have 2: "snd (set_user_preferred_run db_abc (cache_a k) svc1 run_a) = cache_a k"
    by (simp add: set_user_preferred_run_def invalidate_cache_def)
  have 3: "snd (snd (complete_calculation_run ''m'' fs_ac_updated db_abc (cache_a k) svc1 ''a''))
     = cache_a k"
    by (simp add: complete_calculation_run_def objects_get_abc invalidate_cache_def Let_def)
  have 4: "get_calculation_data k ''m'' fs_ac_updated
       (fst (set_user_preferred_run db_abc (cache_a k) svc1 run_a))
       (cache_a k) 10 svc1 (Some ''a'') False =
     Inr (calc_a k, cache_a k)"
    unfolding get_calculation_data_def select_a_pref
    by (simp add: bind_err_def cache_prefix_svc1 run_a_fields cache_get_def
        cache_a_def)
  have 5: "ss_budget (the (cd_summary_stats (calc_a k))) = 3500"
    "ss_budget (the (cd_summary_stats (calc_a_updated k))) = 1000"
    by (simp_all add: calc_a_def calc_a_updated_def)
  show ?thesis
    using 1 2 3 4 5 try_a(2) by simp
qed


end
